theory Spec2Isabelle
  imports Main "HOL-Library.Word" "HOL-Library.Monad_Syntax"
begin

unbundle bit_operations_syntax

section \<open>The etherbone driver of LiteX-CNC (litexcnc\_eth.c, litexcnc\_eth.h)\<close>

text \<open>
  The driver talks to an FPGA card through the functions of etherbone.c and is driven by
  litexcnc.c. Neither file, nor the headers litexcnc.h, etherbone.h and cJSON.h, belongs
  to the sources at hand: their functions are the outside world of this model. Every call
  that leaves litexcnc\_eth.c is recorded, in order, in a trace of events, and what such
  a call answers is given by an environment, a record of functions of the trace so far.
  A driver function takes the trace and returns it extended.
\<close>

subsection \<open>Bytes and 32-bit values in network order\<close>

type_synonym u8 = "8 word"
type_synonym u32 = "32 word"

text \<open>
  A \<^verbatim>\<open>uint32_t\<close> that holds a value in network order (the result of
  \<^verbatim>\<open>htobe32\<close>, or four bytes copied out of a received buffer) is represented by its
  memory image, the four bytes in address order. The image of \<^verbatim>\<open>htobe32(v)\<close> is the
  big-endian encoding of \<open>v\<close> whatever the byte order of the host, \<^verbatim>\<open>be32toh\<close> decodes
  an image, and \<^verbatim>\<open>==\<close> on two such variables is equality of their images.
\<close>

definition htobe32 :: "u32 \<Rightarrow> u8 list" where
  "htobe32 v = [ucast (drop_bit 24 v), ucast (drop_bit 16 v), ucast (drop_bit 8 v), ucast v]"

fun be32toh :: "u8 list \<Rightarrow> u32" where
  "be32toh (b0 # b1 # b2 # b3 # rest) =
     push_bit 24 (ucast b0) OR push_bit 16 (ucast b1) OR push_bit 8 (ucast b2) OR ucast b3"
| "be32toh bs = 0"

text \<open>
  \<^verbatim>\<open>memcpy(dst, src, n)\<close> on byte lists: the first \<open>n\<close> bytes of \<open>dst\<close> become the
  first \<open>n\<close> bytes of \<open>src\<close>. It is exact when both hold at least \<open>n\<close> bytes.
\<close>

definition memcpy :: "u8 list \<Rightarrow> u8 list \<Rightarrow> nat \<Rightarrow> u8 list" where
  "memcpy dst src n = take n src @ drop n dst"

subsection \<open>Events and the environment\<close>

datatype event =
    Ev_eb_connect string string nat
  | Ev_eb_disconnect
  | Ev_eb_read8 u32 nat
  | Ev_eb_write8 u32 "u8 list" nat
  | Ev_eb_wait_for_tx_buffer_empty
  | Ev_eb_send "u8 list" nat
  | Ev_eb_recv nat
  | Ev_usecSleep nat
  | Ev_load_config string
  | Ev_cJSON_Delete
  | Ev_litexcnc_register
  | Ev_log string

text \<open>
  \<open>Ev_eb_write8 a buf n\<close> is the call \<^verbatim>\<open>eb_write8(conn, a, buf, n, debug)\<close> with the
  bytes found at \<open>buf\<close>; \<open>Ev_eb_read8 a n\<close> is \<^verbatim>\<open>eb_read8(conn, a, buf, n, debug)\<close>;
  \<open>Ev_eb_send buf n\<close> and \<open>Ev_eb_recv n\<close> are \<^verbatim>\<open>eb_send(conn, buf, n)\<close> and
  \<^verbatim>\<open>eb_recv(conn, buf, n)\<close>. \<open>Ev_log fmt\<close> is a message written with format string
  \<open>fmt\<close> by \<^verbatim>\<open>LITEXCNC_ERR_NO_DEVICE\<close>, \<^verbatim>\<open>LITEXCNC_PRINT_NO_DEVICE\<close>,
  \<^verbatim>\<open>rtapi_print_msg\<close>, \<^verbatim>\<open>rtapi_print\<close> or \<^verbatim>\<open>fprintf(stderr, ...)\<close>; of
  the format string the words before the first conversion are kept.
\<close>

fun is_read8 :: "event \<Rightarrow> bool" where
  "is_read8 (Ev_eb_read8 a n) = True"
| "is_read8 e = False"

fun is_send :: "event \<Rightarrow> bool" where
  "is_send (Ev_eb_send buf n) = True"
| "is_send e = False"

fun is_recv :: "event \<Rightarrow> bool" where
  "is_recv (Ev_eb_recv n) = True"
| "is_recv e = False"

definition nreads :: "event list \<Rightarrow> nat" where
  "nreads t = length (filter is_read8 t)"

text \<open>The JSON document of cJSON, as far as \<^verbatim>\<open>init_board\<close> looks into it.\<close>

datatype cJSON =
    cJSON_Object "(string \<times> cJSON) list"
  | cJSON_String "string option"
  | cJSON_Other

text \<open>
  The constants of litexcnc.h that the driver uses. The header is not among the sources,
  so the three sizes are parameters of the model.
\<close>

record litexcnc_h =
  LITEXCNC_HEADER_DATA_READ_SIZE :: nat
  LITEXCNC_RESET_HEADER_SIZE :: nat
  LITEXCNC_CONFIG_HEADER_SIZE :: nat

text \<open>
  \<^verbatim>\<open>litexcnc_fpga_t\<close> (declared in litexcnc.h): the fields that litexcnc\_eth.c reads or
  writes. The function pointers, \<^verbatim>\<open>comp_id\<close>, \<^verbatim>\<open>name\<close> and \<^verbatim>\<open>private\<close> carry no
  data of the model. A buffer is the list of its bytes; a \<^verbatim>\<open>size_t\<close> is a \<open>nat\<close>.
\<close>

record litexcnc_fpga =
  version :: u32
  fingerprint :: u32
  read_buffer :: "u8 list"
  read_buffer_size :: nat
  read_header_size :: nat
  write_buffer :: "u8 list"
  write_buffer_size :: nat
  write_header_size :: nat

text \<open>\<^verbatim>\<open>litexcnc_eth_t\<close>; \<open>connection = None\<close> is the NULL pointer.\<close>

record litexcnc_eth =
  debug :: bool
  connection :: "nat option"
  read_request_buffer :: "u8 list"
  fpga :: litexcnc_fpga

text \<open>
  The environment. Each field answers one kind of call from the trace before the call and
  the arguments that matter:
  \<^item> \<open>eb_connect_res t host port\<close>: the connection, \<open>None\<close> for NULL;
  \<^item> \<open>eb_read8_res t addr buf n\<close>: the return value and the contents of the buffer after
    the call (\<open>buf\<close> are its contents before);
  \<^item> \<open>eb_send_res t buf n\<close>: the return value;
  \<^item> \<open>eb_recv_res t buf n\<close>: the return value and the contents of the buffer after the call;
  \<^item> \<open>load_config_res t file\<close>: the document (\<open>None\<close> for NULL) and the fingerprint that
    \<^verbatim>\<open>litexcnc_load_config\<close> stores;
  \<^item> \<open>register_res t b config fingerprint\<close>: the return value of
    \<^verbatim>\<open>litexcnc_register\<close> and the board as it leaves it (it allocates the buffers and
    sets their sizes);
  \<^item> \<open>kmalloc_junk t i\<close>: byte \<open>i\<close> of a block fresh from \<^verbatim>\<open>rtapi_kmalloc\<close>.
\<close>

record env =
  eb_connect_res :: "event list \<Rightarrow> string \<Rightarrow> string \<Rightarrow> nat option"
  eb_read8_res :: "event list \<Rightarrow> u32 \<Rightarrow> u8 list \<Rightarrow> nat \<Rightarrow> int \<times> u8 list"
  eb_send_res :: "event list \<Rightarrow> u8 list \<Rightarrow> nat \<Rightarrow> int"
  eb_recv_res :: "event list \<Rightarrow> u8 list \<Rightarrow> nat \<Rightarrow> int \<times> u8 list"
  load_config_res :: "event list \<Rightarrow> string \<Rightarrow> cJSON option \<times> u32"
  register_res :: "event list \<Rightarrow> litexcnc_eth \<Rightarrow> cJSON option \<Rightarrow> u32 \<Rightarrow> int \<times> litexcnc_eth"
  kmalloc_junk :: "event list \<Rightarrow> nat \<Rightarrow> u8"

definition rtapi_kmalloc :: "env \<Rightarrow> event list \<Rightarrow> nat \<Rightarrow> u8 list" where
  "rtapi_kmalloc E t n = map (kmalloc_junk E t) [0..<n]"

subsection \<open>litexcnc\_eth.h\<close>

definition MAX_RESET_RETRIES :: nat where
  "MAX_RESET_RETRIES = 5"

text \<open>
  The five address macros. Their values are used as 32-bit addresses
  (\<^verbatim>\<open>uint32_t address = htobe32(...)\<close>, \<^verbatim>\<open>uint32_t addresses[words]\<close>), so the sums are
  taken in \<open>32 word\<close>, where \<open>+\<close> and \<open>-\<close> wrap around: reducing a \<^verbatim>\<open>size_t\<close> sum
  to 32 bits gives the 32-bit sum of the reduced operands.
\<close>

definition LITEXCNC_ETH_INIT_DATA_BASE_ADDRESS :: "litexcnc_h \<Rightarrow> litexcnc_fpga \<Rightarrow> u32" where
  "LITEXCNC_ETH_INIT_DATA_BASE_ADDRESS K f = 0"

definition LITEXCNC_ETH_RESET_DATA_BASE_ADDRESS :: "litexcnc_h \<Rightarrow> litexcnc_fpga \<Rightarrow> u32" where
  "LITEXCNC_ETH_RESET_DATA_BASE_ADDRESS K f =
     LITEXCNC_ETH_INIT_DATA_BASE_ADDRESS K f + of_nat (LITEXCNC_HEADER_DATA_READ_SIZE K)"

definition LITEXCNC_ETH_CONFIG_DATA_BASE_ADDRESS :: "litexcnc_h \<Rightarrow> litexcnc_fpga \<Rightarrow> u32" where
  "LITEXCNC_ETH_CONFIG_DATA_BASE_ADDRESS K f =
     LITEXCNC_ETH_RESET_DATA_BASE_ADDRESS K f + of_nat (LITEXCNC_RESET_HEADER_SIZE K)"

definition LITEXCNC_ETH_WRITE_DATA_BASE_ADDRESS :: "litexcnc_h \<Rightarrow> litexcnc_fpga \<Rightarrow> u32" where
  "LITEXCNC_ETH_WRITE_DATA_BASE_ADDRESS K f =
     LITEXCNC_ETH_CONFIG_DATA_BASE_ADDRESS K f + of_nat (LITEXCNC_CONFIG_HEADER_SIZE K)"

definition LITEXCNC_ETH_READ_DATA_BASE_ADDRESS :: "litexcnc_h \<Rightarrow> litexcnc_fpga \<Rightarrow> u32" where
  "LITEXCNC_ETH_READ_DATA_BASE_ADDRESS K f =
     LITEXCNC_ETH_WRITE_DATA_BASE_ADDRESS K f + of_nat (write_buffer_size f)
       - of_nat (write_header_size f)"

subsection \<open>litexcnc\_eth\_verify\_config\<close>

text \<open>
  Modelled from the spec: \<^verbatim>\<open>litexcnc_header_data_read_t\<close> is declared in litexcnc.h,
  which is missing; the init region is three consecutive big-endian 32-bit words, magic,
  version and fingerprint, so the struct is twelve bytes, each field four of them.
\<close>

record litexcnc_header_data_read =
  magic :: "u8 list"
  header_version :: "u8 list"
  header_fingerprint :: "u8 list"

definition header_of_bytes :: "u8 list \<Rightarrow> litexcnc_header_data_read" where
  "header_of_bytes buf =
     \<lparr>magic = take 4 buf, header_version = take 4 (drop 4 buf),
      header_fingerprint = take 4 (drop 8 buf)\<rparr>"

definition litexcnc_eth_verify_config ::
  "env \<Rightarrow> litexcnc_h \<Rightarrow> litexcnc_eth \<Rightarrow> event list \<Rightarrow> int \<times> litexcnc_eth \<times> event list" where
  "litexcnc_eth_verify_config E K board t =
     (let read_buffer0 = rtapi_kmalloc E t (LITEXCNC_HEADER_DATA_READ_SIZE K);
          (r, read_buffer1) =
             eb_read8_res E t (LITEXCNC_ETH_INIT_DATA_BASE_ADDRESS K (fpga board)) read_buffer0
               (LITEXCNC_HEADER_DATA_READ_SIZE K);
          t1 = t @ [Ev_eb_read8 (LITEXCNC_ETH_INIT_DATA_BASE_ADDRESS K (fpga board))
                      (LITEXCNC_HEADER_DATA_READ_SIZE K)]
      in if r < 0 then (r, board, t1 @ [Ev_log ''Cannot read from FPGA''])
         else
           let header = header_of_bytes read_buffer1
           in if be32toh (magic header) \<noteq> 0x18052022
              then (- 1, board, t1 @ [Ev_log ''Invalid magic received''])
              else (0,
                    board\<lparr>fpga := (fpga board)\<lparr>version := be32toh (header_version header),
                       fingerprint := be32toh (header_fingerprint header)\<rparr>\<rparr>,
                    t1))"

subsection \<open>litexcnc\_eth\_reset\<close>

text \<open>
  The function has two \<^verbatim>\<open>while\<close> loops with the same body; they differ in the flag
  that is written and in the message of the failing exit. \<open>reset_loop\<close> is that loop,
  entered with the values the variables \<^verbatim>\<open>i\<close>, \<^verbatim>\<open>reset_status\<close> and \<^verbatim>\<open>buffer\<close>
  have at that point. \<open>Inl r\<close> is \<^verbatim>\<open>return r\<close> from inside the loop; \<open>Inr\<close> is the
  normal exit, with \<^verbatim>\<open>reset_status\<close> and the buffer as the loop leaves them. The
  return values of \<^verbatim>\<open>eb_write8\<close> and \<^verbatim>\<open>eb_read8\<close> are not looked at.
\<close>

function reset_loop ::
  "env \<Rightarrow> litexcnc_h \<Rightarrow> litexcnc_eth \<Rightarrow> u8 list \<Rightarrow> string \<Rightarrow> nat \<Rightarrow> u8 list \<Rightarrow> u8 list
     \<Rightarrow> event list \<Rightarrow> (int + u8 list \<times> u8 list) \<times> event list" where
  "reset_loop E K board reset_flag msg i reset_status buffer t =
     (if reset_flag \<noteq> reset_status then
        (if i > MAX_RESET_RETRIES then (Inl (- 1), t @ [Ev_log msg])
         else
           let buffer1 = memcpy buffer reset_flag (LITEXCNC_RESET_HEADER_SIZE K);
               t1 = t @ [Ev_eb_write8 (LITEXCNC_ETH_RESET_DATA_BASE_ADDRESS K (fpga board))
                           buffer1 (LITEXCNC_RESET_HEADER_SIZE K)];
               t2 = t1 @ [Ev_usecSleep 10];
               (r, buffer2) =
                  eb_read8_res E t2 (LITEXCNC_ETH_RESET_DATA_BASE_ADDRESS K (fpga board))
                    buffer1 (LITEXCNC_RESET_HEADER_SIZE K);
               t3 = t2 @ [Ev_eb_read8 (LITEXCNC_ETH_RESET_DATA_BASE_ADDRESS K (fpga board))
                            (LITEXCNC_RESET_HEADER_SIZE K)];
               reset_status1 = memcpy reset_status buffer2 (LITEXCNC_RESET_HEADER_SIZE K)
           in reset_loop E K board reset_flag msg (i + 1) reset_status1 buffer2 t3)
      else (Inr (reset_status, buffer), t))"
  by pat_completeness auto
termination
  by (relation "measure (\<lambda>(E, K, board, reset_flag, msg, i, rest). MAX_RESET_RETRIES + 1 - i)")
     (auto simp: MAX_RESET_RETRIES_def)

definition msg_reset_failed :: string where
  "msg_reset_failed = ''Reset of the card failed after ''"

definition msg_no_response :: string where
  "msg_no_response = ''FPGA did not respond after reset for ''"

definition litexcnc_eth_reset ::
  "env \<Rightarrow> litexcnc_h \<Rightarrow> litexcnc_eth \<Rightarrow> event list \<Rightarrow> int \<times> litexcnc_eth \<times> event list" where
  "litexcnc_eth_reset E K board t =
     (let buffer = rtapi_kmalloc E t (LITEXCNC_RESET_HEADER_SIZE K);
          (res1, t1) =
             reset_loop E K board (htobe32 0x01) msg_reset_failed 1 (htobe32 0x00) buffer t
      in case res1 of
           Inl r \<Rightarrow> (r, board, t1)
         | Inr (reset_status, buffer1) \<Rightarrow>
             (let (res2, t2) =
                    reset_loop E K board (htobe32 0) msg_no_response 1 reset_status buffer1 t1
              in case res2 of
                   Inl r \<Rightarrow> (r, board, t2)
                 | Inr final \<Rightarrow> (0, board, t2)))"

subsection \<open>litexcnc\_eth\_write\_config, litexcnc\_eth\_read, litexcnc\_eth\_write\<close>

definition litexcnc_eth_write_config ::
  "env \<Rightarrow> litexcnc_h \<Rightarrow> litexcnc_eth \<Rightarrow> u8 list \<Rightarrow> nat \<Rightarrow> event list
     \<Rightarrow> int \<times> litexcnc_eth \<times> event list" where
  "litexcnc_eth_write_config E K board data size' t =
     (0, board,
      t @ [Ev_eb_write8 (LITEXCNC_ETH_CONFIG_DATA_BASE_ADDRESS K (fpga board)) data
             (LITEXCNC_CONFIG_HEADER_SIZE K)])"

text \<open>
  \<^verbatim>\<open>count != this->read_buffer_size\<close> compares an \<^verbatim>\<open>int\<close> with a \<^verbatim>\<open>size_t\<close>: the
  \<^verbatim>\<open>int\<close> is converted to \<^verbatim>\<open>size_t\<close> first. A \<^verbatim>\<open>size_t\<close> has 64 bits here.
\<close>

definition size_t_of_int :: "int \<Rightarrow> nat" where
  "size_t_of_int c = nat (c mod 2 ^ 64)"

definition litexcnc_eth_read ::
  "env \<Rightarrow> litexcnc_eth \<Rightarrow> event list \<Rightarrow> int \<times> litexcnc_eth \<times> event list" where
  "litexcnc_eth_read E board t =
     (let t1 = t @ [Ev_eb_wait_for_tx_buffer_empty];
          r = eb_send_res E t1 (read_request_buffer board) (read_buffer_size (fpga board));
          t2 = t1 @ [Ev_eb_send (read_request_buffer board) (read_buffer_size (fpga board))]
      in if r < 0
         then (- 1, board, t2 @ [Ev_log ''Could not write addresses to read to device ''])
         else
           let (count, read_buffer1) =
                  eb_recv_res E t2 (read_buffer (fpga board)) (read_buffer_size (fpga board));
               t3 = t2 @ [Ev_eb_recv (read_buffer_size (fpga board))];
               board1 = board\<lparr>fpga := (fpga board)\<lparr>read_buffer := read_buffer1\<rparr>\<rparr>
           in if size_t_of_int count \<noteq> read_buffer_size (fpga board)
              then (- 1, board1, t3 @ [Ev_log ''Unexpected read length: ''])
              else (0, board1, t3))"

definition litexcnc_eth_write ::
  "env \<Rightarrow> litexcnc_eth \<Rightarrow> event list \<Rightarrow> int \<times> litexcnc_eth \<times> event list" where
  "litexcnc_eth_write E board t =
     (let t1 = t @ [Ev_eb_wait_for_tx_buffer_empty];
          r = eb_send_res E t1 (write_buffer (fpga board)) (write_buffer_size (fpga board));
          t2 = t1 @ [Ev_eb_send (write_buffer (fpga board)) (write_buffer_size (fpga board))]
      in if r < 0
         then (- 1, board, t2 @ [Ev_log ''Could not write data to device ''])
         else (r, board, t2))"

subsection \<open>init\_board\<close>

text \<open>
  Modelled from the spec: cJSON.c is not among the sources. The configuration document
  exposes a required object field \<^verbatim>\<open>etherbone\<close> with a string field \<^verbatim>\<open>ip_address\<close>;
  a missing field or one of the wrong type is rejected. A lookup in NULL, or in a value
  that is not an object, finds nothing.
\<close>

definition cJSON_GetObjectItemCaseSensitive :: "cJSON option \<Rightarrow> string \<Rightarrow> cJSON option" where
  "cJSON_GetObjectItemCaseSensitive object name =
     (case object of Some (cJSON_Object items) \<Rightarrow> map_of items name | _ \<Rightarrow> None)"

definition cJSON_IsObject :: "cJSON option \<Rightarrow> bool" where
  "cJSON_IsObject item = (case item of Some (cJSON_Object items) \<Rightarrow> True | _ \<Rightarrow> False)"

definition cJSON_IsString :: "cJSON option \<Rightarrow> bool" where
  "cJSON_IsString item = (case item of Some (cJSON_String s) \<Rightarrow> True | _ \<Rightarrow> False)"

definition valuestring :: "cJSON option \<Rightarrow> string option" where
  "valuestring item = (case item of Some (cJSON_String s) \<Rightarrow> s | _ \<Rightarrow> None)"

text \<open>
  The buffers of \<^verbatim>\<open>init_board\<close> have sizes that \<^verbatim>\<open>litexcnc_register\<close> chose at run
  time, and the source writes into them without a check. A write outside the buffer is
  undefined behaviour in C: here it is \<open>None\<close>. \<open>memcpy_at dst off src n\<close> is
  \<^verbatim>\<open>memcpy(&dst[off], src, n)\<close> and \<open>store8 buf i v\<close> is \<^verbatim>\<open>buf[i] = v\<close>.
\<close>

definition memcpy_at :: "u8 list \<Rightarrow> nat \<Rightarrow> u8 list \<Rightarrow> nat \<Rightarrow> u8 list option" where
  "memcpy_at dst off src n =
     (if off + n \<le> length dst \<and> n \<le> length src
      then Some (take off dst @ take n src @ drop (off + n) dst) else None)"

definition store8 :: "u8 list \<Rightarrow> nat \<Rightarrow> u8 \<Rightarrow> u8 list option" where
  "store8 buf i v = (if i < length buf then Some (buf[i := v]) else None)"

text \<open>\<^verbatim>\<open>a - b\<close> on \<^verbatim>\<open>size_t\<close> wraps around.\<close>

definition size_t_sub :: "nat \<Rightarrow> nat \<Rightarrow> nat" where
  "size_t_sub a b = (a + 2 ^ 64 - b mod 2 ^ 64) mod 2 ^ 64"

text \<open>
  The part of \<^verbatim>\<open>init_board\<close> under the comment \<^verbatim>\<open>WRITE BUFFER\<close>: the header template
  \<^verbatim>\<open>etherbone_header\<close> (an array of etherbone.h, a parameter here) is copied to the front
  of the write buffer, byte 10 receives the word count, which the assignment to a
  \<^verbatim>\<open>uint8_t\<close> reduces to its low byte, and bytes 12 to 15 the address.
\<close>

definition init_write_buffer :: "litexcnc_h \<Rightarrow> u8 list \<Rightarrow> litexcnc_fpga \<Rightarrow> u8 list option" where
  "init_write_buffer K etherbone_header f =
     do {
       wb1 \<leftarrow> memcpy_at (write_buffer f) 0 etherbone_header (length etherbone_header);
       wb2 \<leftarrow> store8 wb1 10 (of_nat (size_t_sub (write_buffer_size f) 16 div 4));
       let address = htobe32 (LITEXCNC_ETH_WRITE_DATA_BASE_ADDRESS K f);
       memcpy_at wb2 12 address 4
     }"

text \<open>
  The part under \<^verbatim>\<open>READ REQUEST BUFFER\<close>. The array \<^verbatim>\<open>addresses\<close> is the list of
  the images of its elements, one after the other.
\<close>

definition init_read_request_buffer ::
  "env \<Rightarrow> litexcnc_h \<Rightarrow> u8 list \<Rightarrow> event list \<Rightarrow> litexcnc_fpga \<Rightarrow> u8 list option" where
  "init_read_request_buffer E K etherbone_header t f =
     do {
       let read_request_buffer0 = rtapi_kmalloc E t (read_buffer_size f);
       rrb1 \<leftarrow> memcpy_at read_request_buffer0 0 etherbone_header (length etherbone_header);
       let words = size_t_sub (read_buffer_size f) 16 div 4;
       rrb2 \<leftarrow> store8 rrb1 11 (of_nat words);
       let addresses =
             concat (map (\<lambda>i. htobe32 (LITEXCNC_ETH_READ_DATA_BASE_ADDRESS K f + of_nat (i * 4)))
                       [0..<words]);
       memcpy_at rrb2 16 addresses (words * 4)
     }"

text \<open>
  The two exits \<^verbatim>\<open>fail_disconnect\<close> and \<^verbatim>\<open>fail_without_disconnect\<close>; the first
  falls through into the second. \<^verbatim>\<open>eb_disconnect\<close> is given the address of the
  connection pointer and leaves NULL there.
\<close>

definition fail_without_disconnect ::
  "litexcnc_eth \<Rightarrow> event list \<Rightarrow> int \<times> litexcnc_eth \<times> event list" where
  "fail_without_disconnect board t = (- 1, board, t @ [Ev_cJSON_Delete])"

definition fail_disconnect ::
  "litexcnc_eth \<Rightarrow> event list \<Rightarrow> int \<times> litexcnc_eth \<times> event list" where
  "fail_disconnect board t =
     fail_without_disconnect (board\<lparr>connection := None\<rparr>) (t @ [Ev_eb_disconnect])"

text \<open>
  \<^verbatim>\<open>init_board\<close>. The result of \<^verbatim>\<open>litexcnc_register\<close> goes through a \<^verbatim>\<open>size_t\<close>
  and back to \<^verbatim>\<open>int\<close>, which changes nothing. The assignments of the function pointers
  and of \<^verbatim>\<open>comp_id\<close>, and the counter \<^verbatim>\<open>boards_count\<close>, are not part of the model.
\<close>

definition init_board ::
  "env \<Rightarrow> litexcnc_h \<Rightarrow> u8 list \<Rightarrow> litexcnc_eth \<Rightarrow> string \<Rightarrow> event list
     \<Rightarrow> (int \<times> litexcnc_eth \<times> event list) option" where
  "init_board E K etherbone_header board config_file t =
     (let config_file1 = dropWhile (\<lambda>c. c = CHR '' '') config_file;
          (config, fingerprint) = load_config_res E t config_file1;
          t1 = t @ [Ev_load_config config_file1];
          etherbone = cJSON_GetObjectItemCaseSensitive config ''etherbone''
      in if \<not> cJSON_IsObject etherbone
         then Some (fail_without_disconnect board (t1 @ [Ev_log ''Missing required JSON key: '']))
         else
           let ip_address = cJSON_GetObjectItemCaseSensitive etherbone ''ip_address''
           in if \<not> cJSON_IsString ip_address \<or> valuestring ip_address = None
              then Some (fail_without_disconnect board
                           (t1 @ [Ev_log ''Missing required JSON key: '']))
              else
                let host = the (valuestring ip_address);
                    t2 = t1 @ [Ev_log ''Connecting to board at address: ''];
                    board1 = board\<lparr>connection := eb_connect_res E t2 host ''1234''\<rparr>;
                    t3 = t2 @ [Ev_eb_connect host ''1234'' 1]
                in if connection board1 = None
                   then Some (fail_disconnect board1
                          (t3 @ [Ev_log ''colorcnc: ERROR: failed to connect to board on ip-address '']))
                   else
                     let board2 = board1\<lparr>fpga := (fpga board1)
                                    \<lparr>read_header_size := 16, write_header_size := 16\<rparr>\<rparr>;
                         (ret, board3) = register_res E t3 board2 config fingerprint;
                         t4 = t3 @ [Ev_litexcnc_register]
                     in if ret \<noteq> 0
                        then Some (ret, board3, t4 @ [Ev_log ''board fails LitexCNC registration''])
                        else
                          let t5 = t4 @ [Ev_cJSON_Delete]
                          in do {
                               wb \<leftarrow> init_write_buffer K etherbone_header (fpga board3);
                               rrb \<leftarrow> init_read_request_buffer E K etherbone_header t5
                                        (fpga board3);
                               Some (0,
                                     board3\<lparr>read_request_buffer := rrb,
                                       fpga := (fpga board3)\<lparr>write_buffer := wb\<rparr>\<rparr>,
                                     t5)
                             })"

definition close_board ::
  "litexcnc_eth \<Rightarrow> event list \<Rightarrow> int \<times> litexcnc_eth \<times> event list" where
  "close_board board t = (0, board\<lparr>connection := None\<rparr>, t @ [Ev_eb_disconnect])"

subsection \<open>Observations on traces\<close>

text \<open>
  One pass through the body of a reset loop with flag \<open>v\<close>: the write of the flag, the
  sleep of 10 microseconds and the read-back. \<open>reset_attempts K board v n\<close> is \<open>n\<close> such
  passes in a row.
\<close>

definition reset_attempt :: "litexcnc_h \<Rightarrow> litexcnc_eth \<Rightarrow> u32 \<Rightarrow> event list" where
  "reset_attempt K board v =
     [Ev_eb_write8 (LITEXCNC_ETH_RESET_DATA_BASE_ADDRESS K (fpga board)) (htobe32 v)
        (LITEXCNC_RESET_HEADER_SIZE K),
      Ev_usecSleep 10,
      Ev_eb_read8 (LITEXCNC_ETH_RESET_DATA_BASE_ADDRESS K (fpga board))
        (LITEXCNC_RESET_HEADER_SIZE K)]"

definition reset_attempts :: "litexcnc_h \<Rightarrow> litexcnc_eth \<Rightarrow> u32 \<Rightarrow> nat \<Rightarrow> event list" where
  "reset_attempts K board v n = concat (replicate n (reset_attempt K board v))"

text \<open>
  A device follows the script \<open>resp\<close> when its read number \<open>n\<close> (counted from 0 over the
  whole trace) puts the image of \<open>resp n\<close> into the buffer.
\<close>

definition scripted :: "env \<Rightarrow> (nat \<Rightarrow> u32) \<Rightarrow> bool" where
  "scripted E resp \<longleftrightarrow>
     (\<forall>t a buf n. snd (eb_read8_res E t a buf n) = htobe32 (resp (nreads t)))"

text \<open>The bytes that an event puts on the wire towards the card.\<close>

fun bytes_written :: "event \<Rightarrow> u8 list" where
  "bytes_written (Ev_eb_write8 a buf n) = take n buf"
| "bytes_written (Ev_eb_send buf n) = take n buf"
| "bytes_written e = []"

text \<open>The events that a call appended to the trace \<open>t\<close> it started from.\<close>

definition appended :: "event list \<Rightarrow> int \<times> litexcnc_eth \<times> event list \<Rightarrow> event list" where
  "appended t res = drop (length t) (snd (snd res))"

subsection \<open>Simulated devices\<close>

definition config0 :: cJSON where
  "config0 = cJSON_Object [(''etherbone'',
                cJSON_Object [(''ip_address'', cJSON_String (Some ''10.0.0.10''))])]"

definition registered :: "nat \<Rightarrow> nat \<Rightarrow> litexcnc_eth \<Rightarrow> litexcnc_eth" where
  "registered wsize rsize b =
     b\<lparr>fpga := (fpga b)\<lparr>read_buffer := replicate rsize 0, read_buffer_size := rsize,
          write_buffer := replicate wsize 0, write_buffer_size := wsize\<rparr>\<rparr>"

text \<open>
  \<open>env0\<close> is a card for which everything works: the document names an address, the
  connection is made, registration allocates a write buffer of 28 bytes (3 words of
  payload) and a read buffer of 24 bytes, every transfer moves the bytes asked for.
\<close>

definition env0 :: env where
  "env0 = \<lparr>eb_connect_res = (\<lambda>t host port. Some 1),
           eb_read8_res = (\<lambda>t a buf n. (0, buf)),
           eb_send_res = (\<lambda>t buf n. int n),
           eb_recv_res = (\<lambda>t buf n. (int n, buf)),
           load_config_res = (\<lambda>t file. (Some config0, 0)),
           register_res = (\<lambda>t b config fingerprint. (0, registered 28 24 b)),
           kmalloc_junk = (\<lambda>t i. 0)\<rparr>"

definition script_device :: "(nat \<Rightarrow> u32) \<Rightarrow> env" where
  "script_device resp = env0\<lparr>eb_read8_res := (\<lambda>t a buf n. (0, htobe32 (resp (nreads t))))\<rparr>"

definition script_2_2 :: "nat \<Rightarrow> u32" where
  "script_2_2 n = (if n < 2 then 0 else if n < 5 then 1 else 0)"

definition script_never_set :: "nat \<Rightarrow> u32" where
  "script_never_set n = 0"

definition script_never_clear :: "nat \<Rightarrow> u32" where
  "script_never_clear n = 1"

definition header_device :: "u8 list \<Rightarrow> env" where
  "header_device bytes = env0\<lparr>eb_read8_res := (\<lambda>t a buf n. (0, bytes))\<rparr>"

definition recv_device :: "int \<Rightarrow> env" where
  "recv_device count = env0\<lparr>eb_recv_res := (\<lambda>t buf n. (count, buf))\<rparr>"

definition register_device :: "int \<Rightarrow> nat \<Rightarrow> nat \<Rightarrow> env" where
  "register_device ret wsize rsize =
     env0\<lparr>register_res := (\<lambda>t b config fingerprint. (ret, registered wsize rsize b))\<rparr>"

definition K0 :: litexcnc_h where
  "K0 = \<lparr>LITEXCNC_HEADER_DATA_READ_SIZE = 12, LITEXCNC_RESET_HEADER_SIZE = 4,
         LITEXCNC_CONFIG_HEADER_SIZE = 240\<rparr>"

definition K1 :: litexcnc_h where
  "K1 = \<lparr>LITEXCNC_HEADER_DATA_READ_SIZE = 12, LITEXCNC_RESET_HEADER_SIZE = 4,
         LITEXCNC_CONFIG_HEADER_SIZE = 4\<rparr>"

definition fpga0 :: litexcnc_fpga where
  "fpga0 = \<lparr>version = 0, fingerprint = 0, read_buffer = [], read_buffer_size = 0,
            read_header_size = 0, write_buffer = [], write_buffer_size = 0,
            write_header_size = 0\<rparr>"

definition board0 :: litexcnc_eth where
  "board0 = \<lparr>debug = False, connection = None, read_request_buffer = [], fpga = fpga0\<rparr>"

definition header0 :: "u8 list" where
  "header0 = [0x4e, 0x6f, 0x10, 0x44, 0, 0, 0, 0, 0, 0x0f, 0, 0, 0, 0, 0, 0]"

text \<open>The init region of a card with version 2 and fingerprint \<open>0xABCD1234\<close>.\<close>

definition header_bytes0 :: "u8 list" where
  "header_bytes0 = [0x18, 0x05, 0x20, 0x22, 0, 0, 0, 2, 0xAB, 0xCD, 0x12, 0x34]"

text \<open>Further inputs of the examples.\<close>

definition fpga_28 :: litexcnc_fpga where
  "fpga_28 = fpga0\<lparr>write_buffer_size := 28, write_header_size := 16\<rparr>"

definition fpga_huge :: litexcnc_fpga where
  "fpga_huge = fpga0\<lparr>write_buffer_size := 4294967292, write_header_size := 16\<rparr>"

definition config_data0 :: "u8 list" where
  "config_data0 = [1, 2, 3, 4, 5, 6, 7, 8]"

definition config_region0 :: "u8 list" where
  "config_region0 = [1, 2, 3, 4]"

text \<open>The path as it is passed, with a leading space.\<close>

definition cfg_path :: string where
  "cfg_path = '' litexcnc.json''"

section \<open>Properties\<close>

subsection \<open>Network order\<close>

lemma length_htobe32: "length (htobe32 v) = 4"
  by (simp add: htobe32_def)

lemma be32toh_htobe32: "be32toh (htobe32 v) = v"
  unfolding htobe32_def be32toh.simps
proof (rule bit_word_eqI)
  fix n assume "n < LENGTH(32)"
  then have n: "n < 32" by simp
  consider "n < 8" | "8 \<le> n" "n < 16" | "16 \<le> n" "n < 24" | "24 \<le> n" "n < 32"
    using n by linarith
  then show "bit (push_bit 24 (ucast (ucast (drop_bit 24 v) :: u8)) OR
        push_bit 16 (ucast (ucast (drop_bit 16 v) :: u8)) OR
        push_bit 8 (ucast (ucast (drop_bit 8 v) :: u8)) OR ucast (ucast v :: u8) :: u32) n = bit v n"
    by cases (auto simp: bit_simps)
qed

lemma htobe32_inj: "htobe32 v = htobe32 w \<longleftrightarrow> v = w"
  by (metis be32toh_htobe32)

subsection \<open>The reset handshake\<close>

declare reset_loop.simps [simp del]

lemma length_rtapi_kmalloc: "length (rtapi_kmalloc E t n) = n"
  by (simp add: rtapi_kmalloc_def)

lemma nreads_append: "nreads (t @ u) = nreads t + nreads u"
  by (simp add: nreads_def)

lemma nreads_attempt: "nreads (reset_attempt K board v) = 1"
  by (simp add: nreads_def reset_attempt_def)

lemma nreads_attempts: "nreads (reset_attempts K board v n) = n"
  by (induction n) (simp_all add: reset_attempts_def nreads_def reset_attempt_def)

lemma reset_attempts_Suc:
  "reset_attempts K board v (Suc n) = reset_attempt K board v @ reset_attempts K board v n"
  by (simp add: reset_attempts_def)

lemma reset_loop_exit:
  "reset_loop E K board flag msg i flag buffer t = (Inr (flag, buffer), t)"
  by (simp add: reset_loop.simps)

lemma reset_loop_give_up:
  "flag \<noteq> status \<Longrightarrow> 5 < i \<Longrightarrow>
   reset_loop E K board flag msg i status buffer t = (Inl (- 1), t @ [Ev_log msg])"
  by (simp add: reset_loop.simps MAX_RESET_RETRIES_def)

lemma reset_loop_step:
  assumes R: "LITEXCNC_RESET_HEADER_SIZE K = 4"
    and dev: "scripted E resp"
    and len: "length status = 4" "length buffer = 4"
    and ne: "htobe32 v \<noteq> status"
    and i: "i \<le> 5"
  shows "reset_loop E K board (htobe32 v) msg i status buffer t =
         reset_loop E K board (htobe32 v) msg (i + 1) (htobe32 (resp (nreads t)))
           (htobe32 (resp (nreads t))) (t @ reset_attempt K board v)"
proof -
  have rd: "snd (eb_read8_res E t' a buf n) = htobe32 (resp (nreads t'))" for t' a buf n
    using dev by (simp add: scripted_def)
  show ?thesis
    using ne i len
    by (subst reset_loop.simps)
       (simp add: MAX_RESET_RETRIES_def Let_def case_prod_beta rd R memcpy_def
          length_htobe32 reset_attempt_def nreads_def)
qed

lemma reset_loop_confirmed:
  assumes R: "LITEXCNC_RESET_HEADER_SIZE K = 4"
    and dev: "scripted E resp"
  shows "length status = 4 \<Longrightarrow> length buffer = 4 \<Longrightarrow> htobe32 v \<noteq> status \<Longrightarrow>
         (\<forall>n<k. resp (nreads t + n) \<noteq> v) \<Longrightarrow> resp (nreads t + k) = v \<Longrightarrow> i + k \<le> 5 \<Longrightarrow>
         reset_loop E K board (htobe32 v) msg i status buffer t =
           (Inr (htobe32 v, htobe32 v), t @ reset_attempts K board v (Suc k))"
proof (induction k arbitrary: i status buffer t)
  case 0
  then show ?case
    by (simp add: reset_loop_step [OF R dev] reset_loop_exit reset_attempts_def)
next
  case (Suc k)
  have first: "resp (nreads t) \<noteq> v"
    using Suc.prems(4) by (metis add.right_neutral zero_less_Suc)
  have later: "\<forall>n<k. resp (nreads (t @ reset_attempt K board v) + n) \<noteq> v"
    using Suc.prems(4) by (auto simp: nreads_append nreads_attempt)
  have hit: "resp (nreads (t @ reset_attempt K board v) + k) = v"
    using Suc.prems(5) by (simp add: nreads_append nreads_attempt)
  have "reset_loop E K board (htobe32 v) msg i status buffer t =
        reset_loop E K board (htobe32 v) msg (i + 1) (htobe32 (resp (nreads t)))
          (htobe32 (resp (nreads t))) (t @ reset_attempt K board v)"
    using Suc.prems by (intro reset_loop_step [OF R dev]) simp_all
  also have "\<dots> = (Inr (htobe32 v, htobe32 v),
      (t @ reset_attempt K board v) @ reset_attempts K board v (Suc k))"
    using first later hit Suc.prems(6)
    by (intro Suc.IH) (simp_all add: length_htobe32 htobe32_inj)
  finally show ?case
    by (simp add: reset_attempts_Suc)
qed

lemma reset_loop_exhausted:
  assumes R: "LITEXCNC_RESET_HEADER_SIZE K = 4"
    and dev: "scripted E resp"
  shows "length status = 4 \<Longrightarrow> length buffer = 4 \<Longrightarrow> htobe32 v \<noteq> status \<Longrightarrow>
         (\<forall>n<d. resp (nreads t + n) \<noteq> v) \<Longrightarrow> i + d = 6 \<Longrightarrow>
         reset_loop E K board (htobe32 v) msg i status buffer t =
           (Inl (- 1), t @ reset_attempts K board v d @ [Ev_log msg])"
proof (induction d arbitrary: i status buffer t)
  case 0
  then show ?case
    by (simp add: reset_loop_give_up reset_attempts_def)
next
  case (Suc d)
  have first: "resp (nreads t) \<noteq> v"
    using Suc.prems(4) by (metis add.right_neutral zero_less_Suc)
  have later: "\<forall>n<d. resp (nreads (t @ reset_attempt K board v) + n) \<noteq> v"
    using Suc.prems(4) by (auto simp: nreads_append nreads_attempt)
  have "reset_loop E K board (htobe32 v) msg i status buffer t =
        reset_loop E K board (htobe32 v) msg (i + 1) (htobe32 (resp (nreads t)))
          (htobe32 (resp (nreads t))) (t @ reset_attempt K board v)"
    using Suc.prems by (intro reset_loop_step [OF R dev]) simp_all
  also have "\<dots> = (Inl (- 1),
      (t @ reset_attempt K board v) @ reset_attempts K board v d @ [Ev_log msg])"
    using first later Suc.prems(5)
    by (intro Suc.IH) (simp_all add: length_htobe32 htobe32_inj)
  finally show ?case
    by (simp add: reset_attempts_Suc)
qed

text \<open>The two phases, as \<^verbatim>\<open>litexcnc_eth_reset\<close> enters them.\<close>

lemma set_phase_confirmed:
  assumes R: "LITEXCNC_RESET_HEADER_SIZE K = 4" and dev: "scripted E resp"
    and "\<forall>n<k. resp (nreads t + n) \<noteq> 1" "resp (nreads t + k) = 1" "k < 5"
  shows "reset_loop E K board (htobe32 1) msg 1 (htobe32 0)
           (rtapi_kmalloc E t (LITEXCNC_RESET_HEADER_SIZE K)) t =
         (Inr (htobe32 1, htobe32 1), t @ reset_attempts K board 1 (Suc k))"
  using assms(3-)
  by (intro reset_loop_confirmed [OF R dev])
     (simp_all add: length_htobe32 length_rtapi_kmalloc R htobe32_inj)

lemma set_phase_exhausted:
  assumes R: "LITEXCNC_RESET_HEADER_SIZE K = 4" and dev: "scripted E resp"
    and "\<forall>n<5. resp (nreads t + n) \<noteq> 1"
  shows "reset_loop E K board (htobe32 1) msg 1 (htobe32 0)
           (rtapi_kmalloc E t (LITEXCNC_RESET_HEADER_SIZE K)) t =
         (Inl (- 1), t @ reset_attempts K board 1 5 @ [Ev_log msg])"
  using assms(3-)
  by (intro reset_loop_exhausted [OF R dev])
     (simp_all add: length_htobe32 length_rtapi_kmalloc R htobe32_inj)

lemma clear_phase_confirmed:
  assumes R: "LITEXCNC_RESET_HEADER_SIZE K = 4" and dev: "scripted E resp"
    and "\<forall>n<k. resp (nreads t + n) \<noteq> 0" "resp (nreads t + k) = 0" "k < 5"
  shows "reset_loop E K board (htobe32 0) msg 1 (htobe32 1) (htobe32 1) t =
         (Inr (htobe32 0, htobe32 0), t @ reset_attempts K board 0 (Suc k))"
  using assms(3-)
  by (intro reset_loop_confirmed [OF R dev]) (simp_all add: length_htobe32 htobe32_inj)

lemma clear_phase_exhausted:
  assumes R: "LITEXCNC_RESET_HEADER_SIZE K = 4" and dev: "scripted E resp"
    and "\<forall>n<5. resp (nreads t + n) \<noteq> 0"
  shows "reset_loop E K board (htobe32 0) msg 1 (htobe32 1) (htobe32 1) t =
         (Inl (- 1), t @ reset_attempts K board 0 5 @ [Ev_log msg])"
  using assms(3-)
  by (intro reset_loop_exhausted [OF R dev]) (simp_all add: length_htobe32 htobe32_inj)

text \<open>
  C1. Take a device that follows a script, and let its next \<open>k1\<close> read-backs report the
  flag unset (a value other than 1) and, when \<open>k1 < MAX_RESET_RETRIES\<close>, the one after
  them the flag set. Then the set phase of \<^verbatim>\<open>litexcnc_eth_reset\<close> is left for the clear
  phase exactly when \<open>k1 < MAX_RESET_RETRIES\<close>, after \<open>k1 + 1\<close> passes of write, sleep and
  read-back; otherwise the function returns \<open>-1\<close> after 5 passes and the message of the
  set phase. The clear phase starts counting afresh: when the next \<open>k2\<close> read-backs
  differ from 0 and, for \<open>k2 < MAX_RESET_RETRIES\<close>, the one after them is 0, it succeeds
  exactly when \<open>k2 < MAX_RESET_RETRIES\<close>, and otherwise the function returns \<open>-1\<close> after
  5 passes of that phase.
\<close>

theorem litexcnc_eth_reset_retry_budget:
  assumes R: "LITEXCNC_RESET_HEADER_SIZE K = 4"
    and dev: "scripted E resp"
    and unset: "\<forall>n<k1. resp (nreads t + n) \<noteq> 1"
    and set: "k1 < MAX_RESET_RETRIES \<Longrightarrow> resp (nreads t + k1) = 1"
    and busy: "k1 < MAX_RESET_RETRIES \<Longrightarrow> \<forall>n<k2. resp (nreads t + Suc k1 + n) \<noteq> 0"
    and clear: "k1 < MAX_RESET_RETRIES \<Longrightarrow> k2 < MAX_RESET_RETRIES \<Longrightarrow>
                resp (nreads t + Suc k1 + k2) = 0"
  shows "litexcnc_eth_reset E K board t =
    (if k1 < MAX_RESET_RETRIES then
       if k2 < MAX_RESET_RETRIES then
         (0, board, t @ reset_attempts K board 1 (Suc k1) @ reset_attempts K board 0 (Suc k2))
       else
         (- 1, board, t @ reset_attempts K board 1 (Suc k1)
            @ reset_attempts K board 0 MAX_RESET_RETRIES @ [Ev_log msg_no_response])
     else
       (- 1, board, t @ reset_attempts K board 1 MAX_RESET_RETRIES @ [Ev_log msg_reset_failed]))"
proof (cases "k1 < 5")
  case False
  then have "\<forall>n<5. resp (nreads t + n) \<noteq> 1"
    using unset by auto
  from set_phase_exhausted [OF R dev this] False show ?thesis
    by (simp add: litexcnc_eth_reset_def MAX_RESET_RETRIES_def)
next
  case True
  let ?t1 = "t @ reset_attempts K board 1 (Suc k1)"
  have n1: "nreads ?t1 = nreads t + Suc k1"
    by (simp add: nreads_append nreads_attempts)
  have set': "resp (nreads t + k1) = 1"
    and busy': "\<forall>n<k2. resp (nreads t + Suc k1 + n) \<noteq> 0"
    using set busy True by (simp_all add: MAX_RESET_RETRIES_def)
  have p1: "reset_loop E K board (htobe32 1) msg_reset_failed 1 (htobe32 0)
           (rtapi_kmalloc E t (LITEXCNC_RESET_HEADER_SIZE K)) t =
         (Inr (htobe32 1, htobe32 1), ?t1)"
    by (rule set_phase_confirmed [OF R dev unset set' True])
  show ?thesis
  proof (cases "k2 < 5")
    case k2: True
    have clear': "resp (nreads t + Suc k1 + k2) = 0"
      using clear True k2 by (simp add: MAX_RESET_RETRIES_def)
    have "reset_loop E K board (htobe32 0) msg_no_response 1 (htobe32 1) (htobe32 1) ?t1 =
          (Inr (htobe32 0, htobe32 0), ?t1 @ reset_attempts K board 0 (Suc k2))"
      using busy' clear' k2 by (intro clear_phase_confirmed [OF R dev]) (simp_all add: n1)
    with p1 True k2 show ?thesis
      by (simp add: litexcnc_eth_reset_def MAX_RESET_RETRIES_def)
  next
    case k2: False
    have "reset_loop E K board (htobe32 0) msg_no_response 1 (htobe32 1) (htobe32 1) ?t1 =
          (Inl (- 1), ?t1 @ reset_attempts K board 0 5 @ [Ev_log msg_no_response])"
      using busy' k2 by (intro clear_phase_exhausted [OF R dev]) (simp_all add: n1)
    with p1 True k2 show ?thesis
      by (simp add: litexcnc_eth_reset_def MAX_RESET_RETRIES_def)
  qed
qed

lemma scripted_script_device: "scripted (script_device resp) resp"
  by (simp add: scripted_def script_device_def)

theorem litexcnc_eth_reset_retry_budget_witness:
  "LITEXCNC_RESET_HEADER_SIZE K0 = 4 \<and> script_2_2 0 \<noteq> 1 \<and> script_2_2 1 \<noteq> 1 \<and> script_2_2 2 = 1
   \<and> script_2_2 3 \<noteq> 0 \<and> script_2_2 4 \<noteq> 0 \<and> script_2_2 5 = 0
   \<and> litexcnc_eth_reset (script_device script_2_2) K0 board0 [] =
       (0, board0, reset_attempts K0 board0 1 3 @ reset_attempts K0 board0 0 3)
   \<and> litexcnc_eth_reset (script_device script_never_set) K0 board0 [] =
       (- 1, board0, reset_attempts K0 board0 1 5 @ [Ev_log msg_reset_failed])"
proof -
  have R: "LITEXCNC_RESET_HEADER_SIZE K0 = 4"
    by (simp add: K0_def)
  have s: "script_2_2 0 \<noteq> 1" "script_2_2 1 \<noteq> 1" "script_2_2 2 = 1"
    "script_2_2 3 \<noteq> 0" "script_2_2 4 \<noteq> 0" "script_2_2 5 = 0"
    by (simp_all add: script_2_2_def)
  have u: "\<forall>n<2. script_2_2 (nreads [] + n) \<noteq> 1"
    by (simp add: script_2_2_def nreads_def)
  have b: "\<forall>n<2. script_2_2 (nreads [] + Suc 2 + n) \<noteq> 0"
    by (simp add: script_2_2_def nreads_def)
  have st: "script_2_2 (nreads [] + 2) = 1"
    by (simp add: script_2_2_def nreads_def)
  have cl: "script_2_2 (nreads [] + Suc 2 + 2) = 0"
    by (simp add: script_2_2_def nreads_def)
  have ok: "litexcnc_eth_reset (script_device script_2_2) K0 board0 [] =
       (0, board0, reset_attempts K0 board0 1 3 @ reset_attempts K0 board0 0 3)"
    using litexcnc_eth_reset_retry_budget [OF R scripted_script_device u st b cl, of board0]
    by (simp add: MAX_RESET_RETRIES_def)
  have never: "\<forall>n<5. script_never_set (nreads [] + n) \<noteq> 1"
    by (simp add: script_never_set_def)
  have bad: "litexcnc_eth_reset (script_device script_never_set) K0 board0 [] =
       (- 1, board0, reset_attempts K0 board0 1 5 @ [Ev_log msg_reset_failed])"
    using litexcnc_eth_reset_retry_budget
      [OF R scripted_script_device never, of 0 board0]
    by (simp add: MAX_RESET_RETRIES_def)
  from R s ok bad show ?thesis by simp
qed

lemma reset_fails_in_set_phase:
  assumes R: "LITEXCNC_RESET_HEADER_SIZE K = 4" and dev: "scripted E resp"
    and unset: "\<forall>n<5. resp (nreads t + n) \<noteq> 1"
  shows "litexcnc_eth_reset E K board t =
         (- 1, board, t @ reset_attempts K board 1 5 @ [Ev_log msg_reset_failed])"
  using set_phase_exhausted [OF R dev unset]
  by (simp add: litexcnc_eth_reset_def)

lemma reset_fails_in_clear_phase:
  assumes R: "LITEXCNC_RESET_HEADER_SIZE K = 4" and dev: "scripted E resp"
    and k1: "k1 < 5"
    and unset: "\<forall>n<k1. resp (nreads t + n) \<noteq> 1"
    and set: "resp (nreads t + k1) = 1"
    and busy: "\<forall>n<5. resp (nreads t + Suc k1 + n) \<noteq> 0"
  shows "litexcnc_eth_reset E K board t =
         (- 1, board, t @ reset_attempts K board 1 (Suc k1) @ reset_attempts K board 0 5
            @ [Ev_log msg_no_response])"
proof -
  let ?t1 = "t @ reset_attempts K board 1 (Suc k1)"
  have n1: "nreads ?t1 = nreads t + Suc k1"
    by (simp add: nreads_append nreads_attempts)
  have p1: "reset_loop E K board (htobe32 1) msg_reset_failed 1 (htobe32 0)
           (rtapi_kmalloc E t (LITEXCNC_RESET_HEADER_SIZE K)) t =
         (Inr (htobe32 1, htobe32 1), ?t1)"
    by (rule set_phase_confirmed [OF R dev unset set k1])
  have "reset_loop E K board (htobe32 0) msg_no_response 1 (htobe32 1) (htobe32 1) ?t1 =
        (Inl (- 1), ?t1 @ reset_attempts K board 0 5 @ [Ev_log msg_no_response])"
    using busy by (intro clear_phase_exhausted [OF R dev]) (simp_all add: n1)
  with p1 show ?thesis
    by (simp add: litexcnc_eth_reset_def)
qed

lemma msgs_differ: "msg_reset_failed \<noteq> msg_no_response"
  by (simp add: msg_reset_failed_def msg_no_response_def)

text \<open>
  C9 (as amended). When a phase of \<^verbatim>\<open>litexcnc_eth_reset\<close> exhausts its retry budget the
  function returns \<open>-1\<close>, in the set phase and in the clear phase alike: the returned
  value does not tell the phases apart. They differ in the message that is logged last,
  \<open>msg_reset_failed\<close> in the set phase and \<open>msg_no_response\<close> in the clear phase.
\<close>

theorem litexcnc_eth_reset_failure_codes:
  assumes R: "LITEXCNC_RESET_HEADER_SIZE K = 4" and dev: "scripted E resp"
  shows "((\<forall>n<5. resp (nreads t + n) \<noteq> 1) \<longrightarrow>
            fst (litexcnc_eth_reset E K board t) = - 1 \<and>
            last (snd (snd (litexcnc_eth_reset E K board t))) = Ev_log msg_reset_failed)
       \<and> (k1 < 5 \<and> (\<forall>n<k1. resp (nreads t + n) \<noteq> 1) \<and> resp (nreads t + k1) = 1 \<and>
            (\<forall>n<5. resp (nreads t + Suc k1 + n) \<noteq> 0) \<longrightarrow>
            fst (litexcnc_eth_reset E K board t) = - 1 \<and>
            last (snd (snd (litexcnc_eth_reset E K board t))) = Ev_log msg_no_response)
       \<and> msg_reset_failed \<noteq> msg_no_response"
  using reset_fails_in_set_phase [OF R dev, of t board]
    reset_fails_in_clear_phase [OF R dev, of k1 t board] msgs_differ
  by simp

lemma K0_reset_size: "LITEXCNC_RESET_HEADER_SIZE K0 = 4"
  by (simp add: K0_def)

theorem litexcnc_eth_reset_failure_codes_witness:
  "LITEXCNC_RESET_HEADER_SIZE K0 = 4
   \<and> fst (litexcnc_eth_reset (script_device script_never_set) K0 board0 []) = - 1
   \<and> last (snd (snd (litexcnc_eth_reset (script_device script_never_set) K0 board0 [])))
       = Ev_log msg_reset_failed
   \<and> fst (litexcnc_eth_reset (script_device script_never_clear) K0 board0 []) = - 1
   \<and> last (snd (snd (litexcnc_eth_reset (script_device script_never_clear) K0 board0 [])))
       = Ev_log msg_no_response"
  using litexcnc_eth_reset_failure_codes [OF K0_reset_size scripted_script_device,
      of script_never_set "[]" board0 0]
    litexcnc_eth_reset_failure_codes [OF K0_reset_size scripted_script_device,
      of script_never_clear "[]" board0 0]
  by (simp add: K0_reset_size script_never_set_def script_never_clear_def)

text \<open>
  A device that never reports the flag set and one that reports it set at once and never
  cleared make the function fail in different phases with the same returned value.
\<close>

theorem reset_failure_codes_coincide:
  "fst (litexcnc_eth_reset (script_device script_never_set) K0 board0 []) =
   fst (litexcnc_eth_reset (script_device script_never_clear) K0 board0 [])
   \<and> last (snd (snd (litexcnc_eth_reset (script_device script_never_set) K0 board0 [])))
       = Ev_log msg_reset_failed
   \<and> last (snd (snd (litexcnc_eth_reset (script_device script_never_clear) K0 board0 [])))
       = Ev_log msg_no_response"
proof -
  have a: "litexcnc_eth_reset (script_device script_never_set) K0 board0 [] =
      (- 1, board0, [] @ reset_attempts K0 board0 1 5 @ [Ev_log msg_reset_failed])"
    by (rule reset_fails_in_set_phase [OF K0_reset_size scripted_script_device])
       (simp add: script_never_set_def)
  have b: "litexcnc_eth_reset (script_device script_never_clear) K0 board0 [] =
      (- 1, board0, [] @ reset_attempts K0 board0 1 (Suc 0) @ reset_attempts K0 board0 0 5
         @ [Ev_log msg_no_response])"
    by (rule reset_fails_in_clear_phase [OF K0_reset_size scripted_script_device])
       (simp_all add: script_never_clear_def)
  show ?thesis
    by (simp add: a b)
qed

subsection \<open>Verification of the magic number\<close>

lemma be32toh_take: "be32toh (take 4 bs) = be32toh bs"
proof (cases bs)
  case Nil then show ?thesis by simp
next
  case (Cons b0 r0)
  then show ?thesis
  proof (cases r0)
    case Nil with Cons show ?thesis by simp
  next
    case (Cons b1 r1)
    note c1 = this
    then show ?thesis
    proof (cases r1)
      case Nil with c1 \<open>bs = b0 # r0\<close> show ?thesis by simp
    next
      case (Cons b2 r2)
      note c2 = this
      then show ?thesis
      proof (cases r2)
        case Nil with c1 c2 \<open>bs = b0 # r0\<close> show ?thesis by simp
      next
        case (Cons b3 r3)
        with c1 c2 \<open>bs = b0 # r0\<close> show ?thesis by simp
      qed
    qed
  qed
qed

text \<open>
  C2. Let the read of the init region put the twelve bytes \<open>bytes\<close> into the buffer.
  When their first big-endian word is not \<open>0x18052022\<close>,
  \<^verbatim>\<open>litexcnc_eth_verify_config\<close> returns a negative value and leaves version and
  fingerprint (the whole board) as they were, whatever the other bytes are; when the read
  itself succeeded the value is \<open>-1\<close> and the invalid magic is logged. When the first
  word is \<open>0x18052022\<close> and the read succeeded, it returns 0 and stores the decoded
  second word as version and the decoded third word as fingerprint.
\<close>

theorem litexcnc_eth_verify_config_magic:
  assumes H: "LITEXCNC_HEADER_DATA_READ_SIZE K = 12"
    and rd: "eb_read8_res E t (LITEXCNC_ETH_INIT_DATA_BASE_ADDRESS K (fpga board))
               (rtapi_kmalloc E t (LITEXCNC_HEADER_DATA_READ_SIZE K))
               (LITEXCNC_HEADER_DATA_READ_SIZE K) = (r, bytes)"
    and len: "length bytes = 12"
  shows "(be32toh bytes \<noteq> 0x18052022 \<longrightarrow>
            fst (litexcnc_eth_verify_config E K board t) < 0 \<and>
            fst (snd (litexcnc_eth_verify_config E K board t)) = board)
       \<and> (0 \<le> r \<and> be32toh bytes \<noteq> 0x18052022 \<longrightarrow>
            litexcnc_eth_verify_config E K board t =
              (- 1, board,
               t @ [Ev_eb_read8 (LITEXCNC_ETH_INIT_DATA_BASE_ADDRESS K (fpga board)) 12,
                    Ev_log ''Invalid magic received'']))
       \<and> (0 \<le> r \<and> be32toh bytes = 0x18052022 \<longrightarrow>
            litexcnc_eth_verify_config E K board t =
              (0,
               board\<lparr>fpga := (fpga board)\<lparr>version := be32toh (drop 4 bytes),
                  fingerprint := be32toh (drop 8 bytes)\<rparr>\<rparr>,
               t @ [Ev_eb_read8 (LITEXCNC_ETH_INIT_DATA_BASE_ADDRESS K (fpga board)) 12]))"
  using rd
  by (simp add: litexcnc_eth_verify_config_def Let_def header_of_bytes_def be32toh_take H)

theorem litexcnc_eth_verify_config_magic_witness:
  "LITEXCNC_HEADER_DATA_READ_SIZE K0 = 12 \<and> length header_bytes0 = 12
   \<and> be32toh header_bytes0 = 0x18052022
   \<and> litexcnc_eth_verify_config (header_device header_bytes0) K0 board0 [] =
       (0, board0\<lparr>fpga := fpga0\<lparr>version := 2, fingerprint := 0xABCD1234\<rparr>\<rparr>,
        [Ev_eb_read8 0 12])"
proof -
  have H: "LITEXCNC_HEADER_DATA_READ_SIZE K0 = 12"
    by (simp add: K0_def)
  have rd: "eb_read8_res (header_device header_bytes0) []
              (LITEXCNC_ETH_INIT_DATA_BASE_ADDRESS K0 (fpga board0))
              (rtapi_kmalloc (header_device header_bytes0) [] (LITEXCNC_HEADER_DATA_READ_SIZE K0))
              (LITEXCNC_HEADER_DATA_READ_SIZE K0) = (0, header_bytes0)"
    by (simp add: header_device_def)
  have len: "length header_bytes0 = 12"
    by (simp add: header_bytes0_def)
  have m: "be32toh header_bytes0 = 0x18052022"
    by (simp add: header_bytes0_def)
  have v: "be32toh (drop 4 header_bytes0) = 2" "be32toh (drop 8 header_bytes0) = 0xABCD1234"
    by (simp_all add: header_bytes0_def)
  from litexcnc_eth_verify_config_magic [OF H rd len] H len m v show ?thesis
    by (simp add: LITEXCNC_ETH_INIT_DATA_BASE_ADDRESS_def board0_def)
qed

subsection \<open>The address layout\<close>

lemmas base_defs =
  LITEXCNC_ETH_INIT_DATA_BASE_ADDRESS_def LITEXCNC_ETH_RESET_DATA_BASE_ADDRESS_def
  LITEXCNC_ETH_CONFIG_DATA_BASE_ADDRESS_def LITEXCNC_ETH_WRITE_DATA_BASE_ADDRESS_def
  LITEXCNC_ETH_READ_DATA_BASE_ADDRESS_def

lemma of_nat_u32_less:
  "a < b \<Longrightarrow> b < 2 ^ 32 \<Longrightarrow> (of_nat a :: u32) < of_nat b"
  by (simp add: word_less_nat_alt unat_of_nat)

lemma read_base_of_nat:
  assumes "write_header_size f \<le> write_buffer_size f"
  shows "LITEXCNC_ETH_READ_DATA_BASE_ADDRESS K f =
         of_nat (LITEXCNC_HEADER_DATA_READ_SIZE K + LITEXCNC_RESET_HEADER_SIZE K
                 + LITEXCNC_CONFIG_HEADER_SIZE K + (write_buffer_size f - write_header_size f))"
  using assms by (simp add: base_defs of_nat_diff)

lemma write_base_of_nat:
  "LITEXCNC_ETH_WRITE_DATA_BASE_ADDRESS K f =
     of_nat (LITEXCNC_HEADER_DATA_READ_SIZE K + LITEXCNC_RESET_HEADER_SIZE K
             + LITEXCNC_CONFIG_HEADER_SIZE K)"
  by (simp add: base_defs)

text \<open>
  C3 (as amended). The five base addresses are composed as the macros say: the init
  region starts at 0 and each further base is the previous base plus the size of the
  previous region, the read base being the write base plus the write buffer size minus
  the write header size. When all sizes are positive, the write buffer is larger than
  its header and the sum of the sizes stays below \<open>2 ^ 32\<close>, so that no 32-bit address
  wraps around, the five bases are strictly increasing.
\<close>

theorem address_layout:
  "LITEXCNC_ETH_INIT_DATA_BASE_ADDRESS K f = 0
   \<and> LITEXCNC_ETH_RESET_DATA_BASE_ADDRESS K f =
       LITEXCNC_ETH_INIT_DATA_BASE_ADDRESS K f + of_nat (LITEXCNC_HEADER_DATA_READ_SIZE K)
   \<and> LITEXCNC_ETH_CONFIG_DATA_BASE_ADDRESS K f =
       LITEXCNC_ETH_RESET_DATA_BASE_ADDRESS K f + of_nat (LITEXCNC_RESET_HEADER_SIZE K)
   \<and> LITEXCNC_ETH_WRITE_DATA_BASE_ADDRESS K f =
       LITEXCNC_ETH_CONFIG_DATA_BASE_ADDRESS K f + of_nat (LITEXCNC_CONFIG_HEADER_SIZE K)
   \<and> LITEXCNC_ETH_READ_DATA_BASE_ADDRESS K f =
       LITEXCNC_ETH_WRITE_DATA_BASE_ADDRESS K f + of_nat (write_buffer_size f)
         - of_nat (write_header_size f)
   \<and> (0 < LITEXCNC_HEADER_DATA_READ_SIZE K \<and> 0 < LITEXCNC_RESET_HEADER_SIZE K
       \<and> 0 < LITEXCNC_CONFIG_HEADER_SIZE K \<and> write_header_size f < write_buffer_size f
       \<and> LITEXCNC_HEADER_DATA_READ_SIZE K + LITEXCNC_RESET_HEADER_SIZE K
            + LITEXCNC_CONFIG_HEADER_SIZE K + (write_buffer_size f - write_header_size f) < 2 ^ 32
       \<longrightarrow> LITEXCNC_ETH_INIT_DATA_BASE_ADDRESS K f < LITEXCNC_ETH_RESET_DATA_BASE_ADDRESS K f
         \<and> LITEXCNC_ETH_RESET_DATA_BASE_ADDRESS K f < LITEXCNC_ETH_CONFIG_DATA_BASE_ADDRESS K f
         \<and> LITEXCNC_ETH_CONFIG_DATA_BASE_ADDRESS K f < LITEXCNC_ETH_WRITE_DATA_BASE_ADDRESS K f
         \<and> LITEXCNC_ETH_WRITE_DATA_BASE_ADDRESS K f < LITEXCNC_ETH_READ_DATA_BASE_ADDRESS K f)"
proof -
  have eqs: "LITEXCNC_ETH_INIT_DATA_BASE_ADDRESS K f = 0"
    "LITEXCNC_ETH_RESET_DATA_BASE_ADDRESS K f =
       LITEXCNC_ETH_INIT_DATA_BASE_ADDRESS K f + of_nat (LITEXCNC_HEADER_DATA_READ_SIZE K)"
    "LITEXCNC_ETH_CONFIG_DATA_BASE_ADDRESS K f =
       LITEXCNC_ETH_RESET_DATA_BASE_ADDRESS K f + of_nat (LITEXCNC_RESET_HEADER_SIZE K)"
    "LITEXCNC_ETH_WRITE_DATA_BASE_ADDRESS K f =
       LITEXCNC_ETH_CONFIG_DATA_BASE_ADDRESS K f + of_nat (LITEXCNC_CONFIG_HEADER_SIZE K)"
    "LITEXCNC_ETH_READ_DATA_BASE_ADDRESS K f =
       LITEXCNC_ETH_WRITE_DATA_BASE_ADDRESS K f + of_nat (write_buffer_size f)
         - of_nat (write_header_size f)"
    by (simp_all add: base_defs)
  have ord: "LITEXCNC_ETH_INIT_DATA_BASE_ADDRESS K f < LITEXCNC_ETH_RESET_DATA_BASE_ADDRESS K f
         \<and> LITEXCNC_ETH_RESET_DATA_BASE_ADDRESS K f < LITEXCNC_ETH_CONFIG_DATA_BASE_ADDRESS K f
         \<and> LITEXCNC_ETH_CONFIG_DATA_BASE_ADDRESS K f < LITEXCNC_ETH_WRITE_DATA_BASE_ADDRESS K f
         \<and> LITEXCNC_ETH_WRITE_DATA_BASE_ADDRESS K f < LITEXCNC_ETH_READ_DATA_BASE_ADDRESS K f"
    if pos: "0 < LITEXCNC_HEADER_DATA_READ_SIZE K" "0 < LITEXCNC_RESET_HEADER_SIZE K"
      "0 < LITEXCNC_CONFIG_HEADER_SIZE K" "write_header_size f < write_buffer_size f"
      and fit: "LITEXCNC_HEADER_DATA_READ_SIZE K + LITEXCNC_RESET_HEADER_SIZE K
            + LITEXCNC_CONFIG_HEADER_SIZE K + (write_buffer_size f - write_header_size f) < 2 ^ 32"
  proof -
    have i: "LITEXCNC_ETH_INIT_DATA_BASE_ADDRESS K f = of_nat 0"
      by (simp add: base_defs)
    have r: "LITEXCNC_ETH_RESET_DATA_BASE_ADDRESS K f = of_nat (LITEXCNC_HEADER_DATA_READ_SIZE K)"
      by (simp add: base_defs)
    have c: "LITEXCNC_ETH_CONFIG_DATA_BASE_ADDRESS K f =
        of_nat (LITEXCNC_HEADER_DATA_READ_SIZE K + LITEXCNC_RESET_HEADER_SIZE K)"
      by (simp add: base_defs)
    have rb: "LITEXCNC_ETH_READ_DATA_BASE_ADDRESS K f =
         of_nat (LITEXCNC_HEADER_DATA_READ_SIZE K + LITEXCNC_RESET_HEADER_SIZE K
                 + LITEXCNC_CONFIG_HEADER_SIZE K + (write_buffer_size f - write_header_size f))"
      using pos(4) by (intro read_base_of_nat) simp
    show ?thesis
      unfolding i r c write_base_of_nat rb
      using pos fit by (intro conjI of_nat_u32_less) simp_all
  qed
  from eqs ord show ?thesis by blast
qed

theorem address_layout_witness:
  "0 < LITEXCNC_HEADER_DATA_READ_SIZE K0 \<and> 0 < LITEXCNC_RESET_HEADER_SIZE K0
   \<and> 0 < LITEXCNC_CONFIG_HEADER_SIZE K0
   \<and> write_header_size fpga_28 < write_buffer_size fpga_28
   \<and> LITEXCNC_HEADER_DATA_READ_SIZE K0 + LITEXCNC_RESET_HEADER_SIZE K0
        + LITEXCNC_CONFIG_HEADER_SIZE K0
        + (write_buffer_size fpga_28 - write_header_size fpga_28) < 2 ^ 32
   \<and> LITEXCNC_ETH_INIT_DATA_BASE_ADDRESS K0 fpga_28 = 0
   \<and> LITEXCNC_ETH_RESET_DATA_BASE_ADDRESS K0 fpga_28 = 12
   \<and> LITEXCNC_ETH_CONFIG_DATA_BASE_ADDRESS K0 fpga_28 = 16
   \<and> LITEXCNC_ETH_WRITE_DATA_BASE_ADDRESS K0 fpga_28 = 256
   \<and> LITEXCNC_ETH_READ_DATA_BASE_ADDRESS K0 fpga_28 = 268
   \<and> LITEXCNC_ETH_INIT_DATA_BASE_ADDRESS K0 fpga_28 < LITEXCNC_ETH_RESET_DATA_BASE_ADDRESS K0 fpga_28
   \<and> LITEXCNC_ETH_RESET_DATA_BASE_ADDRESS K0 fpga_28 < LITEXCNC_ETH_CONFIG_DATA_BASE_ADDRESS K0 fpga_28
   \<and> LITEXCNC_ETH_CONFIG_DATA_BASE_ADDRESS K0 fpga_28 < LITEXCNC_ETH_WRITE_DATA_BASE_ADDRESS K0 fpga_28
   \<and> LITEXCNC_ETH_WRITE_DATA_BASE_ADDRESS K0 fpga_28 < LITEXCNC_ETH_READ_DATA_BASE_ADDRESS K0 fpga_28"
proof -
  have sizes: "LITEXCNC_HEADER_DATA_READ_SIZE K0 = 12" "LITEXCNC_RESET_HEADER_SIZE K0 = 4"
    "LITEXCNC_CONFIG_HEADER_SIZE K0 = 240" "write_buffer_size fpga_28 = 28"
    "write_header_size fpga_28 = 16"
    by (simp_all add: K0_def fpga_28_def fpga0_def)
  from address_layout [of K0 fpga_28] show ?thesis
    by (simp add: sizes)
qed

text \<open>
  With a write buffer of \<open>2 ^ 32 - 4\<close> bytes all sizes are positive and the buffer is
  larger than its header, but the read base wraps around to 0, below the write base.
\<close>

theorem address_layout_wraps:
  "0 < LITEXCNC_HEADER_DATA_READ_SIZE K1 \<and> 0 < LITEXCNC_RESET_HEADER_SIZE K1
   \<and> 0 < LITEXCNC_CONFIG_HEADER_SIZE K1
   \<and> write_header_size fpga_huge < write_buffer_size fpga_huge
   \<and> LITEXCNC_ETH_WRITE_DATA_BASE_ADDRESS K1 fpga_huge = 20
   \<and> LITEXCNC_ETH_READ_DATA_BASE_ADDRESS K1 fpga_huge = 0
   \<and> \<not> LITEXCNC_ETH_WRITE_DATA_BASE_ADDRESS K1 fpga_huge
        < LITEXCNC_ETH_READ_DATA_BASE_ADDRESS K1 fpga_huge"
  by (simp add: base_defs K1_def fpga_huge_def fpga0_def)


subsection \<open>The cyclic operations\<close>

lemma size_t_of_int_count:
  "0 \<le> c \<Longrightarrow> c < 2 ^ 31 \<Longrightarrow> size_t_of_int c = nat c"
  by (simp add: size_t_of_int_def)

lemma size_t_of_int_error:
  assumes "- (2 ^ 31) \<le> c" "c < 0"
  shows "2 ^ 63 \<le> size_t_of_int c"
proof -
  have "(c + 2 ^ 64) mod 2 ^ 64 = c + 2 ^ 64"
    using assms by (intro mod_pos_pos_trivial) simp_all
  moreover have "(c + 2 ^ 64) mod 2 ^ 64 = c mod 2 ^ 64"
    by simp
  ultimately have "c mod 2 ^ 64 = c + 2 ^ 64"
    by simp
  then show ?thesis
    using assms by (simp add: size_t_of_int_def)
qed

lemma size_t_of_int_eq_iff:
  assumes "- (2 ^ 31) \<le> c" "c < 2 ^ 31" "0 \<le> c \<or> n < 2 ^ 63"
  shows "size_t_of_int c = n \<longleftrightarrow> c = int n"
proof (cases "0 \<le> c")
  case True
  with assms show ?thesis by (auto simp: size_t_of_int_count)
next
  case False
  then have neg: "c < 0" by simp
  have big: "2 ^ 63 \<le> size_t_of_int c"
    by (rule size_t_of_int_error [OF assms(1) neg])
  have small: "n < 2 ^ 63"
    using assms(3) False by simp
  from big small have "size_t_of_int c \<noteq> n" by linarith
  moreover from neg have "c \<noteq> int n" by linarith
  ultimately show ?thesis by simp
qed

text \<open>
  C4. Let \<^verbatim>\<open>eb_send\<close> return \<open>r\<close> and \<^verbatim>\<open>eb_recv\<close> return \<open>count\<close>, an
  \<^verbatim>\<open>int\<close> that is a byte count (or, for a buffer size below \<open>2 ^ 63\<close>, a negative
  error value). Whenever \<open>count\<close> differs from \<^verbatim>\<open>read_buffer_size\<close>,
  \<^verbatim>\<open>litexcnc_eth_read\<close> returns \<open>-1\<close>; it returns 0 exactly when the send succeeded
  and \<open>count\<close> equals \<^verbatim>\<open>read_buffer_size\<close>; and it does not retry: one call sends
  once and receives at most once.
\<close>

theorem litexcnc_eth_read_length_check:
  assumes sent: "eb_send_res E (t @ [Ev_eb_wait_for_tx_buffer_empty])
                 (read_request_buffer board) (read_buffer_size (fpga board)) = r"
    and rcv: "eb_recv_res E
                (t @ [Ev_eb_wait_for_tx_buffer_empty,
                      Ev_eb_send (read_request_buffer board) (read_buffer_size (fpga board))])
                (read_buffer (fpga board)) (read_buffer_size (fpga board)) = (count, rb)"
    and range: "- (2 ^ 31) \<le> count" "count < 2 ^ 31"
    and size: "0 \<le> count \<or> read_buffer_size (fpga board) < 2 ^ 63"
  shows "(count \<noteq> int (read_buffer_size (fpga board)) \<longrightarrow>
            fst (litexcnc_eth_read E board t) = - 1)
       \<and> (fst (litexcnc_eth_read E board t) = 0 \<longleftrightarrow>
            0 \<le> r \<and> count = int (read_buffer_size (fpga board)))
       \<and> length (filter is_send (appended t (litexcnc_eth_read E board t))) = 1
       \<and> length (filter is_recv (appended t (litexcnc_eth_read E board t))) \<le> 1"
  using sent rcv size_t_of_int_eq_iff [OF range size]
  by (simp add: litexcnc_eth_read_def Let_def appended_def)

theorem litexcnc_eth_read_length_check_witness:
  "litexcnc_eth_read (recv_device 5) (registered 28 24 board0) [] =
     (- 1, registered 28 24 board0,
      [Ev_eb_wait_for_tx_buffer_empty, Ev_eb_send [] 24, Ev_eb_recv 24,
       Ev_log ''Unexpected read length: ''])
   \<and> fst (litexcnc_eth_read (recv_device 24) (registered 28 24 board0) []) = 0
   \<and> fst (litexcnc_eth_read (recv_device (- 1)) (registered 28 24 board0) []) = - 1"
proof -
  let ?b = "registered 28 24 board0"
  have sz: "read_buffer_size (fpga ?b) = 24" "read_request_buffer ?b = []"
    "read_buffer (fpga ?b) = replicate 24 0"
    by (simp_all add: registered_def board0_def)
  have a: "fst (litexcnc_eth_read (recv_device 5) ?b []) = - 1"
    using litexcnc_eth_read_length_check [of "recv_device 5" "[]" ?b 24 5 "replicate 24 0"]
    by (simp add: sz recv_device_def env0_def)
  have b: "fst (litexcnc_eth_read (recv_device 24) ?b []) = 0"
    using litexcnc_eth_read_length_check [of "recv_device 24" "[]" ?b 24 24 "replicate 24 0"]
    by (simp add: sz recv_device_def env0_def)
  have c: "fst (litexcnc_eth_read (recv_device (- 1)) ?b []) = - 1"
    using litexcnc_eth_read_length_check [of "recv_device (- 1)" "[]" ?b 24 "- 1" "replicate 24 0"]
    by (simp add: sz recv_device_def env0_def)
  have d: "litexcnc_eth_read (recv_device 5) ?b [] =
     (- 1, ?b, [Ev_eb_wait_for_tx_buffer_empty, Ev_eb_send [] 24, Ev_eb_recv 24,
       Ev_log ''Unexpected read length: ''])"
    by (simp add: litexcnc_eth_read_def Let_def recv_device_def env0_def size_t_of_int_def
          registered_def board0_def)
  from a b c d show ?thesis by simp
qed

text \<open>
  C5. Every call of \<^verbatim>\<open>litexcnc_eth_read\<close> and of \<^verbatim>\<open>litexcnc_eth_write\<close> begins with
  \<^verbatim>\<open>eb_wait_for_tx_buffer_empty\<close>, followed at once by its \<^verbatim>\<open>eb_send\<close>, and this
  is the only send of the call: no send is issued without the wait right before it.
\<close>

theorem wait_before_send:
  "take 2 (appended t (litexcnc_eth_read E board t)) =
     [Ev_eb_wait_for_tx_buffer_empty,
      Ev_eb_send (read_request_buffer board) (read_buffer_size (fpga board))]
   \<and> filter is_send (appended t (litexcnc_eth_read E board t)) =
       [Ev_eb_send (read_request_buffer board) (read_buffer_size (fpga board))]
   \<and> take 2 (appended t (litexcnc_eth_write E board t)) =
       [Ev_eb_wait_for_tx_buffer_empty,
        Ev_eb_send (write_buffer (fpga board)) (write_buffer_size (fpga board))]
   \<and> filter is_send (appended t (litexcnc_eth_write E board t)) =
       [Ev_eb_send (write_buffer (fpga board)) (write_buffer_size (fpga board))]"
  by (simp add: litexcnc_eth_read_def litexcnc_eth_write_def Let_def appended_def
        case_prod_beta)

text \<open>
  C8 (as amended). Called with a payload that has the size of the config region, that is
  with \<^verbatim>\<open>size\<close> equal to \<^verbatim>\<open>LITEXCNC_CONFIG_HEADER_SIZE\<close> and \<^verbatim>\<open>data\<close> holding that
  many bytes, \<^verbatim>\<open>litexcnc_eth_write_config\<close> makes one call of \<^verbatim>\<open>eb_write8\<close> to the
  base address of the config region that carries the whole payload, \<^verbatim>\<open>size\<close> bytes. It
  reads nothing back, leaves the board as it is and returns 0.
\<close>

theorem litexcnc_eth_write_config_region_payload:
  assumes region: "size' = LITEXCNC_CONFIG_HEADER_SIZE K"
    and payload: "length data = size'"
  shows "fst (litexcnc_eth_write_config E K board data size' t) = 0
       \<and> fst (snd (litexcnc_eth_write_config E K board data size' t)) = board
       \<and> appended t (litexcnc_eth_write_config E K board data size' t) =
           [Ev_eb_write8 (LITEXCNC_ETH_CONFIG_DATA_BASE_ADDRESS K (fpga board)) data size']
       \<and> LITEXCNC_ETH_CONFIG_DATA_BASE_ADDRESS K (fpga board) =
           of_nat (LITEXCNC_HEADER_DATA_READ_SIZE K) + of_nat (LITEXCNC_RESET_HEADER_SIZE K)
       \<and> concat (map bytes_written
            (appended t (litexcnc_eth_write_config E K board data size' t))) = data
       \<and> filter is_read8 (appended t (litexcnc_eth_write_config E K board data size' t)) = []"
  using region payload
  by (simp add: litexcnc_eth_write_config_def appended_def
        LITEXCNC_ETH_CONFIG_DATA_BASE_ADDRESS_def LITEXCNC_ETH_RESET_DATA_BASE_ADDRESS_def
        LITEXCNC_ETH_INIT_DATA_BASE_ADDRESS_def)

theorem litexcnc_eth_write_config_region_payload_witness:
  "LITEXCNC_CONFIG_HEADER_SIZE K1 = 4 \<and> length config_region0 = 4
   \<and> litexcnc_eth_write_config env0 K1 board0 config_region0 4 [] =
       (0, board0, [Ev_eb_write8 16 config_region0 4])
   \<and> concat (map bytes_written
        (appended [] (litexcnc_eth_write_config env0 K1 board0 config_region0 4 []))) =
       config_region0"
proof -
  have region: "4 = LITEXCNC_CONFIG_HEADER_SIZE K1"
    by (simp add: K1_def)
  have payload: "length config_region0 = 4"
    by (simp add: config_region0_def)
  have base: "LITEXCNC_ETH_CONFIG_DATA_BASE_ADDRESS K1 (fpga board0) = 16"
    by (simp add: LITEXCNC_ETH_CONFIG_DATA_BASE_ADDRESS_def
          LITEXCNC_ETH_RESET_DATA_BASE_ADDRESS_def LITEXCNC_ETH_INIT_DATA_BASE_ADDRESS_def K1_def)
  from litexcnc_eth_write_config_region_payload [OF region payload, of env0 board0 "[]"]
  have "fst (litexcnc_eth_write_config env0 K1 board0 config_region0 4 []) = 0
      \<and> fst (snd (litexcnc_eth_write_config env0 K1 board0 config_region0 4 [])) = board0
      \<and> snd (snd (litexcnc_eth_write_config env0 K1 board0 config_region0 4 [])) =
          [Ev_eb_write8 16 config_region0 4]
      \<and> concat (map bytes_written
           (appended [] (litexcnc_eth_write_config env0 K1 board0 config_region0 4 []))) =
          config_region0"
    by (simp add: appended_def base payload)
  then have "litexcnc_eth_write_config env0 K1 board0 config_region0 4 [] =
       (0, board0, [Ev_eb_write8 16 config_region0 4])
     \<and> concat (map bytes_written
           (appended [] (litexcnc_eth_write_config env0 K1 board0 config_region0 4 []))) =
          config_region0"
    by (cases "litexcnc_eth_write_config env0 K1 board0 config_region0 4 []") simp
  with region payload show ?thesis
    by (simp add: appended_def)
qed

text \<open>
  The claim speaks of a payload of any given size. Passed 8 bytes with \<^verbatim>\<open>size = 8\<close>
  while \<^verbatim>\<open>LITEXCNC_CONFIG_HEADER_SIZE\<close> is 4, the function hands \<^verbatim>\<open>eb_write8\<close> the
  count 4: the first four bytes go out, not the payload of the given size, and the
  returned value is 0 all the same.
\<close>

theorem write_config_ignores_size:
  "length config_data0 = 8
   \<and> fst (litexcnc_eth_write_config env0 K1 board0 config_data0 8 []) = 0
   \<and> appended [] (litexcnc_eth_write_config env0 K1 board0 config_data0 8 []) =
       [Ev_eb_write8 16 config_data0 4]
   \<and> concat (map bytes_written
        (appended [] (litexcnc_eth_write_config env0 K1 board0 config_data0 8 []))) = [1, 2, 3, 4]
   \<and> concat (map bytes_written
        (appended [] (litexcnc_eth_write_config env0 K1 board0 config_data0 8 []))) \<noteq> config_data0"
  by (simp add: litexcnc_eth_write_config_def appended_def K1_def config_data0_def
        LITEXCNC_ETH_CONFIG_DATA_BASE_ADDRESS_def LITEXCNC_ETH_RESET_DATA_BASE_ADDRESS_def
        LITEXCNC_ETH_INIT_DATA_BASE_ADDRESS_def)

subsection \<open>The buffers built by \<^verbatim>\<open>init_board\<close>\<close>

lemma size_t_sub_16:
  assumes "16 \<le> n" "n < 2 ^ 64"
  shows "size_t_sub n 16 = n - 16"
proof -
  have "n + 2 ^ 64 - 16 = (n - 16) + 2 ^ 64"
    using assms by simp
  then have "(n + 2 ^ 64 - 16) mod 2 ^ 64 = (n - 16) mod 2 ^ 64"
    by (metis mod_add_self2)
  with assms show ?thesis
    by (simp add: size_t_sub_def)
qed

lemma memcpy_at_SomeD:
  "memcpy_at dst off src n = Some r \<Longrightarrow>
   off + n \<le> length dst \<and> n \<le> length src \<and> r = take off dst @ take n src @ drop (off + n) dst"
  by (simp add: memcpy_at_def split: if_splits)

lemma store8_SomeD: "store8 buf i v = Some r \<Longrightarrow> i < length buf \<and> r = buf[i := v]"
  by (simp add: store8_def split: if_splits)

lemma size_t_sub_16_wrap: "n < 16 \<Longrightarrow> size_t_sub n 16 = n + 2 ^ 64 - 16"
  by (simp add: size_t_sub_def)

lemma length_concat_words:
  assumes "\<And>i. length (f i) = 4"
  shows "length (concat (map f [0..<n])) = 4 * n"
  using assms by (induction n) simp_all

lemma word_of_concat:
  assumes len: "\<And>i. length (f i) = (4::nat)"
  shows "i < n \<Longrightarrow> take 4 (drop (4 * i) (concat (map f [0..<n]))) = f i"
proof (induction n)
  case 0
  then show ?case by simp
next
  case (Suc n)
  have l: "length (concat (map f [0..<n])) = 4 * n"
    by (rule length_concat_words [OF len])
  show ?case
  proof (cases "i < n")
    case True
    then have "4 * i + 4 \<le> 4 * n" by simp
    with Suc.IH [OF True] l show ?thesis by simp
  next
    case False
    with Suc.prems have "i = n" by simp
    with l len show ?thesis by simp
  qed
qed

lemma init_write_buffer_result:
  assumes "init_write_buffer K hdr f = Some wb"
  shows "length wb = length (write_buffer f) \<and> 16 \<le> length wb
       \<and> wb ! 10 = of_nat (size_t_sub (write_buffer_size f) 16 div 4)
       \<and> take 4 (drop 12 wb) = htobe32 (LITEXCNC_ETH_WRITE_DATA_BASE_ADDRESS K f)"
  using assms
  by (auto simp: init_write_buffer_def memcpy_at_def store8_def Let_def length_htobe32
        nth_append split: if_splits bind_splits)

lemma init_write_buffer_defined:
  assumes "length hdr \<le> length (write_buffer f)" "16 \<le> length (write_buffer f)"
  shows "\<exists>wb. init_write_buffer K hdr f = Some wb"
  using assms
  by (simp add: init_write_buffer_def memcpy_at_def store8_def Let_def length_htobe32)

lemma init_read_request_buffer_result:
  assumes ok: "init_read_request_buffer E K hdr t f = Some rrb"
    and sz: "read_buffer_size f < 2 ^ 64"
  shows "length rrb = read_buffer_size f \<and> 16 \<le> read_buffer_size f
       \<and> rrb ! 11 = of_nat ((read_buffer_size f - 16) div 4)
       \<and> (\<forall>i < (read_buffer_size f - 16) div 4.
            take 4 (drop (16 + 4 * i) rrb) =
              htobe32 (LITEXCNC_ETH_READ_DATA_BASE_ADDRESS K f + of_nat (4 * i)))"
proof -
  define n where "n = read_buffer_size f"
  define w where "w = size_t_sub n 16 div 4"
  define g where "g = (\<lambda>i. htobe32 (LITEXCNC_ETH_READ_DATA_BASE_ADDRESS K f + of_nat (i * 4)))"
  define rrb0 where "rrb0 = rtapi_kmalloc E t n"
  define rrb1 where "rrb1 = take (length hdr) hdr @ drop (length hdr) rrb0"
  define rrb2 where "rrb2 = rrb1[11 := of_nat w]"
  define addrs where "addrs = concat (map g [0..<w])"
  have l0: "length rrb0 = n"
    by (simp add: rrb0_def length_rtapi_kmalloc)
  have la: "length addrs = 4 * w"
    unfolding addrs_def by (rule length_concat_words) (simp add: g_def length_htobe32)
  from ok obtain r1 r2 where
    m1: "memcpy_at rrb0 0 hdr (length hdr) = Some r1" and
    m2: "store8 r1 11 (of_nat w) = Some r2" and
    m3: "memcpy_at r2 16 addrs (w * 4) = Some rrb"
    unfolding init_read_request_buffer_def Let_def bind_eq_Some_conv
      n_def [symmetric] w_def [symmetric] g_def [symmetric] rrb0_def [symmetric]
      addrs_def [symmetric]
    by blast
  from memcpy_at_SomeD [OF m1] have c1: "length hdr \<le> n" and r1: "r1 = rrb1"
    by (simp_all add: l0 rrb1_def)
  from store8_SomeD [OF m2] have c2: "11 < n" and r2: "r2 = rrb2"
    using c1 by (simp_all add: r1 rrb1_def rrb2_def l0)
  have l2': "length rrb2 = n"
    using c1 by (simp add: rrb2_def rrb1_def l0)
  from memcpy_at_SomeD [OF m3] have c3: "16 + w * 4 \<le> n"
    and r: "rrb = take 16 rrb2 @ take (w * 4) addrs @ drop (16 + w * 4) rrb2"
    by (simp_all add: r2 l2')
  note c = c1 c2 c3
  have l2: "length rrb2 = n"
    using c by (simp add: rrb2_def rrb1_def l0)
  have n16: "16 \<le> n"
  proof (rule ccontr)
    assume "\<not> 16 \<le> n"
    then have "n < 16" by simp
    then have "w = (n + 2 ^ 64 - 16) div 4"
      by (simp add: w_def size_t_sub_16_wrap)
    with c(3) \<open>n < 16\<close> show False by simp
  qed
  have w: "w = (n - 16) div 4"
    using n16 sz by (simp add: w_def size_t_sub_16 n_def)
  have r': "rrb = take 16 rrb2 @ addrs @ drop (16 + w * 4) rrb2"
    using r la by simp
  have len: "length rrb = n"
    using c l2 la by (simp add: r')
  have b11: "rrb ! 11 = of_nat w"
    using l2 n16 by (simp add: r' nth_append rrb2_def rrb1_def l0 c)
  have words: "take 4 (drop (16 + 4 * i) rrb) = g i" if "i < w" for i
  proof -
    have "4 * i + 4 \<le> 4 * w" using that by simp
    then have "take 4 (drop (16 + 4 * i) rrb) = take 4 (drop (4 * i) addrs)"
      using l2 n16 la by (simp add: r')
    also have "\<dots> = g i"
      unfolding addrs_def using that
      by (intro word_of_concat) (simp_all add: g_def length_htobe32)
    finally show ?thesis .
  qed
  from len n16 b11 words show ?thesis
    by (simp add: w [symmetric] n_def [symmetric] g_def mult.commute)
qed

lemma init_read_request_buffer_defined:
  assumes "length hdr \<le> read_buffer_size f" "16 \<le> read_buffer_size f"
    "read_buffer_size f < 2 ^ 64"
  shows "\<exists>rrb. init_read_request_buffer E K hdr t f = Some rrb"
proof -
  have "length (concat (map (\<lambda>i. htobe32 (LITEXCNC_ETH_READ_DATA_BASE_ADDRESS K f + of_nat (i * 4)))
                 [0..<(read_buffer_size f - 16) div 4])) = 4 * ((read_buffer_size f - 16) div 4)"
    by (rule length_concat_words) (simp add: length_htobe32)
  with assms show ?thesis
    by (simp add: init_read_request_buffer_def memcpy_at_def store8_def Let_def
          length_rtapi_kmalloc size_t_sub_16)
qed


lemma write_base_write_buffer [simp]:
  "LITEXCNC_ETH_WRITE_DATA_BASE_ADDRESS K (f\<lparr>write_buffer := wb\<rparr>) =
   LITEXCNC_ETH_WRITE_DATA_BASE_ADDRESS K f"
  by (simp add: base_defs)

lemma read_base_write_buffer [simp]:
  "LITEXCNC_ETH_READ_DATA_BASE_ADDRESS K (f\<lparr>write_buffer := wb\<rparr>) =
   LITEXCNC_ETH_READ_DATA_BASE_ADDRESS K f"
  by (simp add: base_defs)

lemma init_board_success:
  assumes "init_board E K hdr board cf t = Some (0, board', t')"
  shows "\<exists>board3 t5 wb rrb.
           init_write_buffer K hdr (fpga board3) = Some wb \<and>
           init_read_request_buffer E K hdr t5 (fpga board3) = Some rrb \<and>
           board' = board3\<lparr>read_request_buffer := rrb,
                      fpga := (fpga board3)\<lparr>write_buffer := wb\<rparr>\<rparr>"
  using assms
  by (auto simp: init_board_def Let_def fail_without_disconnect_def fail_disconnect_def
        split: if_splits prod.splits bind_splits)

lemma init_board_buffers:
  assumes ok: "init_board E K hdr board cf t = Some (0, board', t')"
  shows "16 \<le> length (write_buffer (fpga board'))
       \<and> write_buffer (fpga board') ! 10 =
           of_nat (size_t_sub (write_buffer_size (fpga board')) 16 div 4)
       \<and> take 4 (drop 12 (write_buffer (fpga board'))) =
           htobe32 (LITEXCNC_ETH_WRITE_DATA_BASE_ADDRESS K (fpga board'))
       \<and> (read_buffer_size (fpga board') < 2 ^ 64 \<longrightarrow>
            length (read_request_buffer board') = read_buffer_size (fpga board')
            \<and> 16 \<le> read_buffer_size (fpga board')
            \<and> read_request_buffer board' ! 11 = of_nat ((read_buffer_size (fpga board') - 16) div 4)
            \<and> (\<forall>i < (read_buffer_size (fpga board') - 16) div 4.
                 take 4 (drop (16 + 4 * i) (read_request_buffer board')) =
                   htobe32 (LITEXCNC_ETH_READ_DATA_BASE_ADDRESS K (fpga board') + of_nat (4 * i))))"
proof -
  from init_board_success [OF ok] obtain board3 t5 wb rrb where
    w: "init_write_buffer K hdr (fpga board3) = Some wb" and
    r: "init_read_request_buffer E K hdr t5 (fpga board3) = Some rrb" and
    b: "board' = board3\<lparr>read_request_buffer := rrb, fpga := (fpga board3)\<lparr>write_buffer := wb\<rparr>\<rparr>"
    by blast
  from init_write_buffer_result [OF w] init_read_request_buffer_result [OF r]
  show ?thesis
    by (simp add: b)
qed

text \<open>
  C7 (as amended). When \<^verbatim>\<open>init_board\<close> returns 0 and the write buffer size is at
  least 16, byte 10 of the write buffer is the low byte of the payload word count
  \<open>(write_buffer_size - 16) div 4\<close>, which is the word count itself when that is below
  256, and bytes 12 to 15 are the big-endian encoding of the base address of the write
  region.
\<close>

theorem init_board_write_buffer:
  assumes ok: "init_board E K hdr board cf t = Some (0, board', t')"
    and sz: "16 \<le> write_buffer_size (fpga board')" "write_buffer_size (fpga board') < 2 ^ 64"
  shows "16 \<le> length (write_buffer (fpga board'))
       \<and> unat (write_buffer (fpga board') ! 10) =
           ((write_buffer_size (fpga board') - 16) div 4) mod 256
       \<and> take 4 (drop 12 (write_buffer (fpga board'))) =
           htobe32 (LITEXCNC_ETH_WRITE_DATA_BASE_ADDRESS K (fpga board'))"
  using init_board_buffers [OF ok] sz
  by (simp add: size_t_sub_16 unat_of_nat)

text \<open>
  C6 (as amended). When \<^verbatim>\<open>init_board\<close> returns 0, the read-request buffer has
  \<^verbatim>\<open>read_buffer_size\<close> bytes, at least 16; with \<open>N = (read_buffer_size - 16) div 4\<close>,
  its byte 11 is the low byte of \<open>N\<close> (\<open>N\<close> itself when \<open>N < 256\<close>) and for every
  \<open>i < N\<close> the four bytes at offset \<open>16 + 4 * i\<close> are the big-endian encoding of the
  read base address plus \<open>4 * i\<close>. None of \<^verbatim>\<open>litexcnc_eth_read\<close>,
  \<^verbatim>\<open>litexcnc_eth_write\<close>, \<^verbatim>\<open>litexcnc_eth_verify_config\<close>, \<^verbatim>\<open>litexcnc_eth_reset\<close>
  and \<^verbatim>\<open>litexcnc_eth_write_config\<close> changes the buffer afterwards.
\<close>

theorem init_board_read_request_buffer:
  assumes ok: "init_board E K hdr board cf t = Some (0, board', t')"
    and sz: "read_buffer_size (fpga board') < 2 ^ 64"
  shows "length (read_request_buffer board') = read_buffer_size (fpga board')
       \<and> 16 \<le> read_buffer_size (fpga board')
       \<and> unat (read_request_buffer board' ! 11) =
           ((read_buffer_size (fpga board') - 16) div 4) mod 256
       \<and> (\<forall>i < (read_buffer_size (fpga board') - 16) div 4.
            take 4 (drop (16 + 4 * i) (read_request_buffer board')) =
              htobe32 (LITEXCNC_ETH_READ_DATA_BASE_ADDRESS K (fpga board') + of_nat (4 * i)))
       \<and> read_request_buffer (fst (snd (litexcnc_eth_read Env board' tr))) =
           read_request_buffer board'
       \<and> read_request_buffer (fst (snd (litexcnc_eth_write Env board' tr))) =
           read_request_buffer board'
       \<and> read_request_buffer (fst (snd (litexcnc_eth_verify_config Env Kc board' tr))) =
           read_request_buffer board'
       \<and> read_request_buffer (fst (snd (litexcnc_eth_reset Env Kc board' tr))) =
           read_request_buffer board'
       \<and> read_request_buffer (fst (snd (litexcnc_eth_write_config Env Kc board' data n tr))) =
           read_request_buffer board'"
proof -
  have built: "length (read_request_buffer board') = read_buffer_size (fpga board')
       \<and> 16 \<le> read_buffer_size (fpga board')
       \<and> unat (read_request_buffer board' ! 11) =
           ((read_buffer_size (fpga board') - 16) div 4) mod 256
       \<and> (\<forall>i < (read_buffer_size (fpga board') - 16) div 4.
            take 4 (drop (16 + 4 * i) (read_request_buffer board')) =
              htobe32 (LITEXCNC_ETH_READ_DATA_BASE_ADDRESS K (fpga board') + of_nat (4 * i)))"
    using init_board_buffers [OF ok] sz
    by (simp add: unat_of_nat)
  have kept:
    "read_request_buffer (fst (snd (litexcnc_eth_read Env board' tr))) = read_request_buffer board'"
    "read_request_buffer (fst (snd (litexcnc_eth_write Env board' tr))) = read_request_buffer board'"
    "read_request_buffer (fst (snd (litexcnc_eth_verify_config Env Kc board' tr))) =
       read_request_buffer board'"
    "read_request_buffer (fst (snd (litexcnc_eth_reset Env Kc board' tr))) =
       read_request_buffer board'"
    "read_request_buffer (fst (snd (litexcnc_eth_write_config Env Kc board' data n tr))) =
       read_request_buffer board'"
    by (simp_all add: litexcnc_eth_read_def litexcnc_eth_write_def
          litexcnc_eth_verify_config_def litexcnc_eth_reset_def litexcnc_eth_write_config_def
          Let_def case_prod_beta split: sum.splits)
  from built kept show ?thesis by simp
qed

lemmas json_defs =
  cJSON_GetObjectItemCaseSensitive_def cJSON_IsObject_def cJSON_IsString_def valuestring_def

text \<open>
  The buffers are built whenever the document names an address, the connection is made
  and \<^verbatim>\<open>litexcnc_register\<close> returns 0 with buffers that hold the header.
\<close>

lemma init_board_defined:
  assumes cfg: "load_config_res E t (dropWhile (\<lambda>c. c = CHR '' '') cf) = (config, fp)"
    and ip: "cJSON_GetObjectItemCaseSensitive
               (cJSON_GetObjectItemCaseSensitive config ''etherbone'') ''ip_address'' =
             Some (cJSON_String (Some host))"
    and conn: "eb_connect_res E
                 (t @ [Ev_load_config (dropWhile (\<lambda>c. c = CHR '' '') cf),
                       Ev_log ''Connecting to board at address: '']) host ''1234'' = Some c"
    and reg: "register_res E
                (t @ [Ev_load_config (dropWhile (\<lambda>c. c = CHR '' '') cf),
                      Ev_log ''Connecting to board at address: '',
                      Ev_eb_connect host ''1234'' 1])
                (board\<lparr>connection := Some c,
                   fpga := (fpga board)\<lparr>read_header_size := 16, write_header_size := 16\<rparr>\<rparr>)
                config fp = (0, board3)"
    and wb: "length hdr \<le> length (write_buffer (fpga board3))"
      "16 \<le> length (write_buffer (fpga board3))"
    and rb: "length hdr \<le> read_buffer_size (fpga board3)" "16 \<le> read_buffer_size (fpga board3)"
      "read_buffer_size (fpga board3) < 2 ^ 64"
  shows "\<exists>wb rrb. init_board E K hdr board cf t =
           Some (0, board3\<lparr>read_request_buffer := rrb, fpga := (fpga board3)\<lparr>write_buffer := wb\<rparr>\<rparr>,
                 t @ [Ev_load_config (dropWhile (\<lambda>c. c = CHR '' '') cf),
                      Ev_log ''Connecting to board at address: '',
                      Ev_eb_connect host ''1234'' 1, Ev_litexcnc_register, Ev_cJSON_Delete])"
proof -
  from init_write_buffer_defined [OF wb] obtain wb1 where
    w: "init_write_buffer K hdr (fpga board3) = Some wb1"
    by blast
  from init_read_request_buffer_defined [OF rb] obtain rrb1 where
    r: "init_read_request_buffer E K hdr
          (t @ [Ev_load_config (dropWhile (\<lambda>c. c = CHR '' '') cf),
                Ev_log ''Connecting to board at address: '',
                Ev_eb_connect host ''1234'' 1, Ev_litexcnc_register, Ev_cJSON_Delete])
          (fpga board3) = Some rrb1"
    by blast
  have obj: "cJSON_IsObject (cJSON_GetObjectItemCaseSensitive config ''etherbone'')"
    using ip by (auto simp: json_defs split: option.splits cJSON.splits)
  have str: "cJSON_IsString (cJSON_GetObjectItemCaseSensitive
               (cJSON_GetObjectItemCaseSensitive config ''etherbone'') ''ip_address'')"
    "valuestring (cJSON_GetObjectItemCaseSensitive
               (cJSON_GetObjectItemCaseSensitive config ''etherbone'') ''ip_address'') = Some host"
    by (simp_all add: ip cJSON_IsString_def valuestring_def)
  show ?thesis
    using cfg obj str conn reg w r
    by (simp add: init_board_def Let_def) blast
qed

lemma init_board_register_device:
  assumes "16 \<le> wsize" "16 \<le> rsize" "rsize < 2 ^ 64"
  shows "\<exists>b tr. init_board (register_device 0 wsize rsize) K0 header0 board0 cfg_path [] =
           Some (0, b, tr)
         \<and> write_buffer_size (fpga b) = wsize \<and> read_buffer_size (fpga b) = rsize
         \<and> write_header_size (fpga b) = 16"
proof -
  let ?E = "register_device 0 wsize rsize"
  let ?b3 = "registered wsize rsize (board0\<lparr>connection := Some 1,
               fpga := (fpga board0)\<lparr>read_header_size := 16, write_header_size := 16\<rparr>\<rparr>)"
  have "\<exists>wb rrb. init_board ?E K0 header0 board0 cfg_path [] =
           Some (0, ?b3\<lparr>read_request_buffer := rrb, fpga := (fpga ?b3)\<lparr>write_buffer := wb\<rparr>\<rparr>,
                 [] @ [Ev_load_config (dropWhile (\<lambda>c. c = CHR '' '') cfg_path),
                      Ev_log ''Connecting to board at address: '',
                      Ev_eb_connect ''10.0.0.10'' ''1234'' 1, Ev_litexcnc_register,
                      Ev_cJSON_Delete])"
    using assms
    by (intro init_board_defined [where config = "Some config0" and fp = 0 and c = 1])
       (simp_all add: register_device_def env0_def config0_def json_defs registered_def
          header0_def)
  then obtain wb rrb where
    "init_board ?E K0 header0 board0 cfg_path [] =
       Some (0, ?b3\<lparr>read_request_buffer := rrb, fpga := (fpga ?b3)\<lparr>write_buffer := wb\<rparr>\<rparr>,
             [] @ [Ev_load_config (dropWhile (\<lambda>c. c = CHR '' '') cfg_path),
                      Ev_log ''Connecting to board at address: '',
                      Ev_eb_connect ''10.0.0.10'' ''1234'' 1, Ev_litexcnc_register,
                      Ev_cJSON_Delete])"
    by blast
  then show ?thesis
    by (simp add: registered_def)
qed

lemma env0_registers: "env0 = register_device 0 28 24"
  by (simp add: register_device_def env0_def)

theorem init_board_write_buffer_witness:
  "case init_board env0 K0 header0 board0 cfg_path [] of
     None \<Rightarrow> False
   | Some (r, b, tr) \<Rightarrow>
       r = 0 \<and> write_buffer_size (fpga b) = 28
       \<and> LITEXCNC_ETH_WRITE_DATA_BASE_ADDRESS K0 (fpga b) = 0x00000100
       \<and> unat (write_buffer (fpga b) ! 10) = 3
       \<and> take 4 (drop 12 (write_buffer (fpga b))) = [0x00, 0x00, 0x01, 0x00]"
proof -
  from init_board_register_device [of 28 24] obtain b tr where
    ok: "init_board env0 K0 header0 board0 cfg_path [] = Some (0, b, tr)" and
    sz: "write_buffer_size (fpga b) = 28"
    by (auto simp: env0_registers)
  have base: "LITEXCNC_ETH_WRITE_DATA_BASE_ADDRESS K0 (fpga b) = 0x00000100"
    by (simp add: base_defs K0_def)
  have be: "htobe32 0x00000100 = [0x00, 0x00, 0x01, 0x00]"
    by (simp add: htobe32_def)
  from init_board_write_buffer [OF ok] sz base be show ?thesis
    by (simp add: ok)
qed

theorem init_board_read_request_buffer_witness:
  "case init_board env0 K0 header0 board0 cfg_path [] of
     None \<Rightarrow> False
   | Some (r, b, tr) \<Rightarrow>
       r = 0 \<and> read_buffer_size (fpga b) = 24
       \<and> LITEXCNC_ETH_READ_DATA_BASE_ADDRESS K0 (fpga b) = 0x0000010C
       \<and> length (read_request_buffer b) = 24
       \<and> unat (read_request_buffer b ! 11) = 2
       \<and> take 4 (drop 16 (read_request_buffer b)) = [0x00, 0x00, 0x01, 0x0C]
       \<and> take 4 (drop 20 (read_request_buffer b)) = [0x00, 0x00, 0x01, 0x10]"
proof -
  from init_board_register_device [of 28 24] obtain b tr where
    ok: "init_board env0 K0 header0 board0 cfg_path [] = Some (0, b, tr)" and
    sz: "read_buffer_size (fpga b) = 24" "write_buffer_size (fpga b) = 28"
      "write_header_size (fpga b) = 16"
    by (auto simp: env0_registers)
  have base: "LITEXCNC_ETH_READ_DATA_BASE_ADDRESS K0 (fpga b) = 0x0000010C"
    by (simp add: base_defs K0_def sz)
  have be: "htobe32 0x0000010C = [0x00, 0x00, 0x01, 0x0C]"
    "htobe32 0x00000110 = [0x00, 0x00, 0x01, 0x10]"
    by (simp_all add: htobe32_def)
  have two: "\<forall>i<(2::nat). P i \<Longrightarrow> P 0 \<and> P 1" for P
    by simp
  from init_board_read_request_buffer [OF ok] sz
  have "length (read_request_buffer b) = 24 \<and> unat (read_request_buffer b ! 11) = 2
      \<and> (\<forall>i<2. take 4 (drop (16 + 4 * i) (read_request_buffer b)) =
              htobe32 (LITEXCNC_ETH_READ_DATA_BASE_ADDRESS K0 (fpga b) + of_nat (4 * i)))"
    by simp
  then have "length (read_request_buffer b) = 24 \<and> unat (read_request_buffer b ! 11) = 2
      \<and> take 4 (drop 16 (read_request_buffer b)) = htobe32 0x0000010C
      \<and> take 4 (drop 20 (read_request_buffer b)) = htobe32 0x00000110"
    using base by (auto dest!: two)
  with sz base be show ?thesis
    by (simp add: ok)
qed

text \<open>
  With a write buffer of 1040 bytes the payload has 256 words and byte 10 is 0; the same
  holds for byte 11 of the read-request buffer with a read buffer of 1040 bytes.
\<close>

theorem write_word_count_truncated:
  "case init_board (register_device 0 1040 24) K0 header0 board0 cfg_path [] of
     None \<Rightarrow> False
   | Some (r, b, tr) \<Rightarrow>
       r = 0 \<and> write_buffer_size (fpga b) = 1040
       \<and> (write_buffer_size (fpga b) - 16) div 4 = 256
       \<and> unat (write_buffer (fpga b) ! 10) = 0"
proof -
  from init_board_register_device [of 1040 24] obtain b tr where
    ok: "init_board (register_device 0 1040 24) K0 header0 board0 cfg_path [] = Some (0, b, tr)"
    and sz: "write_buffer_size (fpga b) = 1040"
    by auto
  from init_board_buffers [OF ok] sz show ?thesis
    by (simp add: ok size_t_sub_def)
qed

theorem read_word_count_truncated:
  "case init_board (register_device 0 28 1040) K0 header0 board0 cfg_path [] of
     None \<Rightarrow> False
   | Some (r, b, tr) \<Rightarrow>
       r = 0 \<and> read_buffer_size (fpga b) = 1040
       \<and> (read_buffer_size (fpga b) - 16) div 4 = 256
       \<and> unat (read_request_buffer b ! 11) = 0"
proof -
  from init_board_register_device [of 28 1040] obtain b tr where
    ok: "init_board (register_device 0 28 1040) K0 header0 board0 cfg_path [] = Some (0, b, tr)"
    and sz: "read_buffer_size (fpga b) = 1040"
    by auto
  from init_board_buffers [OF ok] sz show ?thesis
    by (simp add: ok)
qed

subsection \<open>Failing exits of \<^verbatim>\<open>init_board\<close>\<close>

lemmas sim_defs =
  env0_def register_device_def registered_def config0_def board0_def fpga0_def header0_def
  K0_def cfg_path_def

text \<open>
  C10. Let the document name an address, let \<^verbatim>\<open>eb_connect\<close> return a connection and
  let \<^verbatim>\<open>litexcnc_register\<close> then return a value \<open>ret\<close> other than 0. Then
  \<^verbatim>\<open>init_board\<close> returns \<open>ret\<close> right after the message that registration failed,
  with the board as \<^verbatim>\<open>litexcnc_register\<close> left it: it calls neither
  \<^verbatim>\<open>eb_disconnect\<close> nor \<^verbatim>\<open>cJSON_Delete\<close> on this exit, so a connection that was
  established stays open when the error is returned.
\<close>

theorem init_board_register_failure_keeps_connection:
  assumes cfg: "load_config_res E t (dropWhile (\<lambda>c. c = CHR '' '') cf) = (config, fp)"
    and ip: "cJSON_GetObjectItemCaseSensitive
               (cJSON_GetObjectItemCaseSensitive config ''etherbone'') ''ip_address'' =
             Some (cJSON_String (Some host))"
    and conn: "eb_connect_res E
                 (t @ [Ev_load_config (dropWhile (\<lambda>c. c = CHR '' '') cf),
                       Ev_log ''Connecting to board at address: '']) host ''1234'' = Some c"
    and reg: "register_res E
                (t @ [Ev_load_config (dropWhile (\<lambda>c. c = CHR '' '') cf),
                      Ev_log ''Connecting to board at address: '',
                      Ev_eb_connect host ''1234'' 1])
                (board\<lparr>connection := Some c,
                   fpga := (fpga board)\<lparr>read_header_size := 16, write_header_size := 16\<rparr>\<rparr>)
                config fp = (ret, board3)"
    and nz: "ret \<noteq> 0"
  shows "init_board E K hdr board cf t =
           Some (ret, board3,
                 t @ [Ev_load_config (dropWhile (\<lambda>c. c = CHR '' '') cf),
                      Ev_log ''Connecting to board at address: '',
                      Ev_eb_connect host ''1234'' 1, Ev_litexcnc_register,
                      Ev_log ''board fails LitexCNC registration''])"
proof -
  have obj: "cJSON_IsObject (cJSON_GetObjectItemCaseSensitive config ''etherbone'')"
    using ip by (auto simp: json_defs split: option.splits cJSON.splits)
  have str: "cJSON_IsString (cJSON_GetObjectItemCaseSensitive
               (cJSON_GetObjectItemCaseSensitive config ''etherbone'') ''ip_address'')"
    "valuestring (cJSON_GetObjectItemCaseSensitive
               (cJSON_GetObjectItemCaseSensitive config ''etherbone'') ''ip_address'') = Some host"
    by (simp_all add: ip cJSON_IsString_def valuestring_def)
  show ?thesis
    using cfg obj str conn reg nz
    by (simp add: init_board_def Let_def)
qed

theorem init_board_register_failure_keeps_connection_witness:
  "case init_board (register_device (- 1) 28 24) K0 header0 board0 cfg_path [] of
     None \<Rightarrow> False
   | Some (r, b, tr) \<Rightarrow>
       r = - 1 \<and> connection b = Some 1
       \<and> tr = [Ev_load_config ''litexcnc.json'', Ev_log ''Connecting to board at address: '',
               Ev_eb_connect ''10.0.0.10'' ''1234'' 1, Ev_litexcnc_register,
               Ev_log ''board fails LitexCNC registration'']
       \<and> Ev_eb_disconnect \<notin> set tr \<and> Ev_cJSON_Delete \<notin> set tr"
proof -
  let ?E = "register_device (- 1) 28 24"
  let ?b3 = "registered 28 24 (board0\<lparr>connection := Some 1,
               fpga := (fpga board0)\<lparr>read_header_size := 16, write_header_size := 16\<rparr>\<rparr>)"
  have "init_board ?E K0 header0 board0 cfg_path [] =
          Some (- 1, ?b3,
                [] @ [Ev_load_config (dropWhile (\<lambda>c. c = CHR '' '') cfg_path),
                      Ev_log ''Connecting to board at address: '',
                      Ev_eb_connect ''10.0.0.10'' ''1234'' 1, Ev_litexcnc_register,
                      Ev_log ''board fails LitexCNC registration''])"
    by (rule init_board_register_failure_keeps_connection
          [where config = "Some config0" and fp = 0 and c = 1])
       (simp_all add: register_device_def env0_def config0_def json_defs)
  then show ?thesis
    by (simp add: registered_def cfg_path_def)
qed

text \<open>
  The exit taken when \<^verbatim>\<open>eb_connect\<close> fails does go through \<^verbatim>\<open>eb_disconnect\<close>
  and \<^verbatim>\<open>cJSON_Delete\<close>.
\<close>

lemma init_board_connect_failure_disconnects:
  "case init_board (env0\<lparr>eb_connect_res := (\<lambda>t h p. None)\<rparr>) K0 header0 board0 cfg_path [] of
     None \<Rightarrow> False
   | Some (r, b, tr) \<Rightarrow>
       r = - 1 \<and> connection b = None \<and> Ev_eb_disconnect \<in> set tr \<and> Ev_cJSON_Delete \<in> set tr"
  by (simp add: init_board_def Let_def sim_defs json_defs fail_disconnect_def
        fail_without_disconnect_def)

end
